theory Spec2Isabelle
  imports Main
begin

section \<open>The Global Accelerator accelerator resource\<close>

text \<open>
  A shallow embedding of \<^verbatim>\<open>aws/resource_aws_globalaccelerator_accelerator.go\<close>.
  Go pointers are options (\<open>None\<close> is \<^verbatim>\<open>nil\<close>), an \<^verbatim>\<open>error\<close> result is a
  \<open>go_error option\<close> (\<open>None\<close> is \<^verbatim>\<open>nil\<close>), and the remote service is an explicit
  state of an arbitrary type \<open>'r\<close> that every API call reads and replaces.
\<close>

subsection \<open>Errors\<close>

datatype go_error =
    AWSError string string
      \<comment> \<open>an \<^verbatim>\<open>awserr.Error\<close> with its \<^verbatim>\<open>Code()\<close> and \<^verbatim>\<open>Message()\<close>\<close>
  | OtherError string
      \<comment> \<open>any error value that is not an \<^verbatim>\<open>awserr.Error\<close>\<close>
  | Errorf string go_error
      \<comment> \<open>\<^verbatim>\<open>fmt.Errorf(prefix + "%s", err)\<close>: the rendered prefix and the cause\<close>
  | TimeoutError string
      \<comment> \<open>the poller's deadline passed; carries the last observed status\<close>
  | UnexpectedStateError string
      \<comment> \<open>the poller saw a status that is neither pending nor a target\<close>
  | NilPointerDereference
      \<comment> \<open>a run-time panic: a field of a \<^verbatim>\<open>nil\<close> pointer was read\<close>

definition ErrCodeAcceleratorNotFoundException :: string where
  "ErrCodeAcceleratorNotFoundException = ''AcceleratorNotFoundException''"

definition AcceleratorStatusInProgress :: string where
  "AcceleratorStatusInProgress = ''IN_PROGRESS''"

definition AcceleratorStatusDeployed :: string where
  "AcceleratorStatusDeployed = ''DEPLOYED''"

fun HasPrefix :: "string \<Rightarrow> string \<Rightarrow> bool" where
  "HasPrefix s [] = True"
| "HasPrefix [] (c # p) = False"
| "HasPrefix (x # s) (c # p) = (x = c \<and> HasPrefix s p)"

fun Contains :: "string \<Rightarrow> string \<Rightarrow> bool" where
  "Contains [] sub = (sub = [])"
| "Contains (x # s) sub = (HasPrefix (x # s) sub \<or> Contains s sub)"

text \<open>
  Modelled from the spec: \<^verbatim>\<open>isAWSErr\<close> is a helper of the provider that is not in
  the source file. The spec says of the client's errors that one of them "is
  distinguishable as entity not found"; the helper is taken to compare the code of an
  \<^verbatim>\<open>awserr.Error\<close> and to look for the given text in its message (every call in
  the file passes the empty text).
\<close>

fun isAWSErr :: "go_error \<Rightarrow> string \<Rightarrow> string \<Rightarrow> bool" where
  "isAWSErr (AWSError c m) code message = (c = code \<and> Contains m message)"
| "isAWSErr _ code message = False"

subsection \<open>SDK values\<close>

type_synonym arn = string

record IpSet =
  ips_IpAddresses :: "string list"
  ips_IpFamily :: "string option"

record Accelerator =
  acc_AcceleratorArn :: "string option"
  acc_Name :: "string option"
  acc_IpAddressType :: "string option"
  acc_Enabled :: "bool option"
  acc_IpSets :: "IpSet list"
  acc_Status :: "string option"

record AcceleratorAttributes =
  attr_FlowLogsEnabled :: "bool option"
  attr_FlowLogsS3Bucket :: "string option"
  attr_FlowLogsS3Prefix :: "string option"

record CreateAcceleratorInput =
  ci_Name :: "string option"
  ci_IdempotencyToken :: "string option"
  ci_Enabled :: "bool option"
  ci_IpAddressType :: "string option"

record UpdateAcceleratorInput =
  ui_AcceleratorArn :: "string option"
  ui_Name :: "string option"
  ui_Enabled :: "bool option"
  ui_IpAddressType :: "string option"

record UpdateAcceleratorAttributesInput =
  uai_AcceleratorArn :: "string option"
  uai_FlowLogsEnabled :: "bool option"
  uai_FlowLogsS3Bucket :: "string option"
  uai_FlowLogsS3Prefix :: "string option"

definition StringValue :: "string option \<Rightarrow> string" where
  "StringValue p = (case p of None \<Rightarrow> [] | Some s \<Rightarrow> s)"

definition BoolValue :: "bool option \<Rightarrow> bool" where
  "BoolValue p = (case p of None \<Rightarrow> False | Some b \<Rightarrow> b)"

subsection \<open>The remote API client\<close>

text \<open>
  The connection \<^verbatim>\<open>conn\<close>: one function per request, from the remote state to a
  response and the next remote state. The \<^verbatim>\<open>Accelerator\<close> of a response is a
  pointer, hence an option.
\<close>

record 'r GlobalAccelerator =
  CreateAccelerator ::
    "CreateAcceleratorInput \<Rightarrow> 'r \<Rightarrow> (go_error + Accelerator option) \<times> 'r"
  DescribeAccelerator :: "arn \<Rightarrow> 'r \<Rightarrow> (go_error + Accelerator option) \<times> 'r"
  DescribeAcceleratorAttributes ::
    "arn \<Rightarrow> 'r \<Rightarrow> (go_error + AcceleratorAttributes option) \<times> 'r"
  UpdateAccelerator :: "UpdateAcceleratorInput \<Rightarrow> 'r \<Rightarrow> go_error option \<times> 'r"
  UpdateAcceleratorAttributes ::
    "UpdateAcceleratorAttributesInput \<Rightarrow> 'r \<Rightarrow> go_error option \<times> 'r"
  DeleteAccelerator :: "arn \<Rightarrow> 'r \<Rightarrow> go_error option \<times> 'r"

datatype api_call =
    CreateAcceleratorCall CreateAcceleratorInput
  | DescribeAcceleratorCall arn
  | DescribeAcceleratorAttributesCall arn
  | UpdateAcceleratorCall UpdateAcceleratorInput
  | UpdateAcceleratorAttributesCall UpdateAcceleratorAttributesInput
  | DeleteAcceleratorCall arn

text \<open>
  The world a lifecycle function runs in: the remote state, the requests issued so far
  (oldest first) and the counter behind \<^verbatim>\<open>resource.UniqueId\<close>.
\<close>

record 'r world =
  remote :: 'r
  calls :: "api_call list"
  uid_counter :: nat

definition call_CreateAccelerator ::
  "'r GlobalAccelerator \<Rightarrow> CreateAcceleratorInput \<Rightarrow> 'r world
    \<Rightarrow> (go_error + Accelerator option) \<times> 'r world" where
  "call_CreateAccelerator conn opts w =
     (case CreateAccelerator conn opts (remote w) of
        (resp, r) \<Rightarrow> (resp, w\<lparr>remote := r, calls := calls w @ [CreateAcceleratorCall opts]\<rparr>))"

definition call_DescribeAccelerator ::
  "'r GlobalAccelerator \<Rightarrow> arn \<Rightarrow> 'r world \<Rightarrow> (go_error + Accelerator option) \<times> 'r world" where
  "call_DescribeAccelerator conn a w =
     (case DescribeAccelerator conn a (remote w) of
        (resp, r) \<Rightarrow> (resp, w\<lparr>remote := r, calls := calls w @ [DescribeAcceleratorCall a]\<rparr>))"

definition call_DescribeAcceleratorAttributes ::
  "'r GlobalAccelerator \<Rightarrow> arn \<Rightarrow> 'r world
    \<Rightarrow> (go_error + AcceleratorAttributes option) \<times> 'r world" where
  "call_DescribeAcceleratorAttributes conn a w =
     (case DescribeAcceleratorAttributes conn a (remote w) of
        (resp, r) \<Rightarrow>
          (resp, w\<lparr>remote := r, calls := calls w @ [DescribeAcceleratorAttributesCall a]\<rparr>))"

definition call_UpdateAccelerator ::
  "'r GlobalAccelerator \<Rightarrow> UpdateAcceleratorInput \<Rightarrow> 'r world \<Rightarrow> go_error option \<times> 'r world" where
  "call_UpdateAccelerator conn opts w =
     (case UpdateAccelerator conn opts (remote w) of
        (err, r) \<Rightarrow> (err, w\<lparr>remote := r, calls := calls w @ [UpdateAcceleratorCall opts]\<rparr>))"

definition call_UpdateAcceleratorAttributes ::
  "'r GlobalAccelerator \<Rightarrow> UpdateAcceleratorAttributesInput \<Rightarrow> 'r world
    \<Rightarrow> go_error option \<times> 'r world" where
  "call_UpdateAcceleratorAttributes conn opts w =
     (case UpdateAcceleratorAttributes conn opts (remote w) of
        (err, r) \<Rightarrow>
          (err, w\<lparr>remote := r, calls := calls w @ [UpdateAcceleratorAttributesCall opts]\<rparr>))"

definition call_DeleteAccelerator ::
  "'r GlobalAccelerator \<Rightarrow> arn \<Rightarrow> 'r world \<Rightarrow> go_error option \<times> 'r world" where
  "call_DeleteAccelerator conn a w =
     (case DeleteAccelerator conn a (remote w) of
        (err, r) \<Rightarrow> (err, w\<lparr>remote := r, calls := calls w @ [DeleteAcceleratorCall a]\<rparr>))"

subsection \<open>The resource data\<close>

text \<open>
  The element of the \<^verbatim>\<open>attributes\<close> list, a \<^verbatim>\<open>map[string]interface{}\<close> with the
  three keys of the schema; a string entry may be \<^verbatim>\<open>nil\<close>.
\<close>

record attributes_map =
  flow_logs_enabled :: bool
  flow_logs_s3_bucket :: "string option"
  flow_logs_s3_prefix :: "string option"

record ip_set_map =
  ip_addresses :: "string list"
  ip_family :: string

record ResourceValues =
  v_name :: "string option"
  v_ip_address_type :: "string option"
  v_enabled :: "bool option"
  v_ip_sets :: "ip_set_map list"
  v_attributes :: "attributes_map list"

text \<open>
  Modelled from the spec: \<^verbatim>\<open>schema.ResourceData\<close> belongs to the framework and is
  not in the source file. The spec's Update takes the desired and the previously desired
  state and "computes a field-level diff"; the record holds both (\<open>rd_old\<close> the prior
  state, \<open>rd_new\<close> what \<^verbatim>\<open>d.Get\<close> reads and \<^verbatim>\<open>d.Set\<close> writes), the stored id, the
  partial-state mode with the keys recorded by \<^verbatim>\<open>d.SetPartial\<close>, and the two
  configurable wait timeouts, counted in poll intervals. An unset value reads as the
  zero value of its type.
\<close>

record ResourceData =
  rd_id :: string
  rd_old :: ResourceValues
  rd_new :: ResourceValues
  rd_partial :: bool
  rd_partial_keys :: "string list"
  rd_timeout_create :: nat
  rd_timeout_update :: nat

definition SetId :: "string \<Rightarrow> ResourceData \<Rightarrow> ResourceData" where
  "SetId v d = d\<lparr>rd_id := v\<rparr>"

definition Partial :: "bool \<Rightarrow> ResourceData \<Rightarrow> ResourceData" where
  "Partial b d = d\<lparr>rd_partial := b\<rparr>"

definition SetPartial :: "string \<Rightarrow> ResourceData \<Rightarrow> ResourceData" where
  "SetPartial k d = (if rd_partial d then d\<lparr>rd_partial_keys := rd_partial_keys d @ [k]\<rparr> else d)"

definition Get_name :: "ResourceData \<Rightarrow> string" where
  "Get_name d = StringValue (v_name (rd_new d))"

definition Get_enabled :: "ResourceData \<Rightarrow> bool" where
  "Get_enabled d = BoolValue (v_enabled (rd_new d))"

definition Get_attributes :: "ResourceData \<Rightarrow> attributes_map list" where
  "Get_attributes d = v_attributes (rd_new d)"

definition GetOk_ip_address_type :: "ResourceData \<Rightarrow> string \<times> bool" where
  "GetOk_ip_address_type d =
     (let v = StringValue (v_ip_address_type (rd_new d)) in (v, v \<noteq> []))"

definition HasChange_name :: "ResourceData \<Rightarrow> bool" where
  "HasChange_name d = (StringValue (v_name (rd_old d)) \<noteq> StringValue (v_name (rd_new d)))"

definition HasChange_ip_address_type :: "ResourceData \<Rightarrow> bool" where
  "HasChange_ip_address_type d =
     (StringValue (v_ip_address_type (rd_old d)) \<noteq> StringValue (v_ip_address_type (rd_new d)))"

definition HasChange_enabled :: "ResourceData \<Rightarrow> bool" where
  "HasChange_enabled d = (BoolValue (v_enabled (rd_old d)) \<noteq> BoolValue (v_enabled (rd_new d)))"

definition HasChange_attributes :: "ResourceData \<Rightarrow> bool" where
  "HasChange_attributes d = (v_attributes (rd_old d) \<noteq> v_attributes (rd_new d))"

definition Set_name :: "string option \<Rightarrow> ResourceData \<Rightarrow> ResourceData" where
  "Set_name v d = d\<lparr>rd_new := (rd_new d)\<lparr>v_name := v\<rparr>\<rparr>"

definition Set_ip_address_type :: "string option \<Rightarrow> ResourceData \<Rightarrow> ResourceData" where
  "Set_ip_address_type v d = d\<lparr>rd_new := (rd_new d)\<lparr>v_ip_address_type := v\<rparr>\<rparr>"

definition Set_enabled :: "bool option \<Rightarrow> ResourceData \<Rightarrow> ResourceData" where
  "Set_enabled v d = d\<lparr>rd_new := (rd_new d)\<lparr>v_enabled := v\<rparr>\<rparr>"

definition Set_ip_sets :: "ip_set_map list \<Rightarrow> ResourceData \<Rightarrow> ResourceData" where
  "Set_ip_sets v d = d\<lparr>rd_new := (rd_new d)\<lparr>v_ip_sets := v\<rparr>\<rparr>"

definition Set_attributes :: "attributes_map list \<Rightarrow> ResourceData \<Rightarrow> ResourceData" where
  "Set_attributes v d = d\<lparr>rd_new := (rd_new d)\<lparr>v_attributes := v\<rparr>\<rparr>"

subsection \<open>The schema's diff suppression\<close>

text \<open>The \<^verbatim>\<open>DiffSuppressFunc\<close> of the \<^verbatim>\<open>attributes\<close> block (lines 72 to 77).\<close>

definition DiffSuppressFunc :: "string \<Rightarrow> string \<Rightarrow> string \<Rightarrow> ResourceData \<Rightarrow> bool" where
  "DiffSuppressFunc k old new d = (if old = ''1'' \<and> new = ''0'' then True else False)"

subsection \<open>The state projector\<close>

text \<open>
  Modelled from the spec: \<^verbatim>\<open>flattenStringList\<close> is a helper of the provider that is
  not in the source file; the spec says the IP sets are flattened "preserving server
  order".
\<close>

definition flattenStringList :: "string list \<Rightarrow> string list" where
  "flattenStringList xs = xs"

definition resourceAwsGlobalAcceleratorAcceleratorFlattenIpSets ::
  "IpSet list \<Rightarrow> ip_set_map list" where
  "resourceAwsGlobalAcceleratorAcceleratorFlattenIpSets ipsets =
     map (\<lambda>ipset. \<lparr>ip_addresses = flattenStringList (ips_IpAddresses ipset),
                   ip_family = StringValue (ips_IpFamily ipset)\<rparr>) ipsets"

definition resourceAwsGlobalAcceleratorAcceleratorFlattenAttributes ::
  "AcceleratorAttributes option \<Rightarrow> attributes_map list" where
  "resourceAwsGlobalAcceleratorAcceleratorFlattenAttributes attributes =
     (case attributes of
        None \<Rightarrow> []
      | Some a \<Rightarrow>
          [\<lparr>flow_logs_enabled = BoolValue (attr_FlowLogsEnabled a),
            flow_logs_s3_bucket = Some (StringValue (attr_FlowLogsS3Bucket a)),
            flow_logs_s3_prefix = Some (StringValue (attr_FlowLogsS3Prefix a))\<rparr>])"

subsection \<open>Retrieve and Delete\<close>

definition resourceAwsGlobalAcceleratorAcceleratorRetrieve ::
  "'r GlobalAccelerator \<Rightarrow> arn \<Rightarrow> 'r world \<Rightarrow> (go_error + Accelerator option) \<times> 'r world" where
  "resourceAwsGlobalAcceleratorAcceleratorRetrieve conn acceleratorArn w =
     (case call_DescribeAccelerator conn acceleratorArn w of
        (Inl err, w1) \<Rightarrow>
          if isAWSErr err ErrCodeAcceleratorNotFoundException [] then (Inr None, w1)
          else (Inl err, w1)
      | (Inr resp, w1) \<Rightarrow> (Inr resp, w1))"

definition resourceAwsGlobalAcceleratorAcceleratorDelete ::
  "'r GlobalAccelerator \<Rightarrow> ResourceData \<Rightarrow> 'r world
    \<Rightarrow> go_error option \<times> ResourceData \<times> 'r world" where
  "resourceAwsGlobalAcceleratorAcceleratorDelete conn d w =
     (case call_DeleteAccelerator conn (rd_id d) w of
        (Some err, w1) \<Rightarrow>
          if isAWSErr err ErrCodeAcceleratorNotFoundException [] then (None, d, w1)
          else (Some (Errorf ''Error deleting Global Accelerator accelerator: '' err), d, w1)
      | (None, w1) \<Rightarrow> (None, d, w1))"

subsection \<open>The state poller\<close>

text \<open>
  The refresh function handed to the poller (lines 209 to 228). Go's result triple
  \<^verbatim>\<open>(interface{}, string, error)\<close> is kept as a triple.
\<close>

definition resourceAwsGlobalAcceleratorAcceleratorStateRefreshFunc ::
  "'r GlobalAccelerator \<Rightarrow> arn \<Rightarrow> 'r world
    \<Rightarrow> (Accelerator option \<times> string \<times> go_error option) \<times> 'r world" where
  "resourceAwsGlobalAcceleratorAcceleratorStateRefreshFunc conn acceleratorArn w =
     (case resourceAwsGlobalAcceleratorAcceleratorRetrieve conn acceleratorArn w of
        (Inl err, w1) \<Rightarrow> ((None, [], Some err), w1)
      | (Inr None, w1) \<Rightarrow> ((None, [], None), w1)
      | (Inr (Some accelerator), w1) \<Rightarrow>
          ((Some accelerator, StringValue (acc_Status accelerator), None), w1))"

record 'r StateChangeConf =
  Pending :: "string list"
  Target :: "string list"
  Refresh :: "'r world \<Rightarrow> (Accelerator option \<times> string \<times> go_error option) \<times> 'r world"
  Timeout :: nat

text \<open>
  Modelled from the spec: \<^verbatim>\<open>WaitForState\<close> of \<^verbatim>\<open>resource.StateChangeConf\<close>
  belongs to the framework and is not in the source file. It follows section 4.2 of the
  spec: the poller "repeatedly calls" the read "at an implementation-chosen interval";
  "if absence is returned, treat as a transient condition and continue polling until
  timeout"; "if the observed status is in targetValues, return the observed state
  immediately"; a status in neither set is surfaced "as an unexpected-state condition";
  "if timeout elapses before a target is reached, fail with ProvisioningTimeout carrying
  the last observed status"; and, by section 7, an error of the read bubbles to the
  caller. The timeout is counted in poll intervals: the first argument is the number of
  observations that still fit before the deadline, the second the last observed status.
\<close>

fun WaitForState_poll ::
  "'r StateChangeConf \<Rightarrow> nat \<Rightarrow> string \<Rightarrow> 'r world \<Rightarrow> (go_error + Accelerator) \<times> 'r world" where
  "WaitForState_poll conf 0 lastState w = (Inl (TimeoutError lastState), w)"
| "WaitForState_poll conf (Suc n) lastState w =
     (case Refresh conf w of
        ((res, currentState, Some err), w1) \<Rightarrow> (Inl err, w1)
      | ((None, currentState, None), w1) \<Rightarrow> WaitForState_poll conf n currentState w1
      | ((Some a, currentState, None), w1) \<Rightarrow>
          if currentState \<in> set (Target conf) then (Inr a, w1)
          else if currentState \<in> set (Pending conf) then WaitForState_poll conf n currentState w1
          else (Inl (UnexpectedStateError currentState), w1))"

definition WaitForState ::
  "'r StateChangeConf \<Rightarrow> 'r world \<Rightarrow> (go_error + Accelerator) \<times> 'r world" where
  "WaitForState conf w = WaitForState_poll conf (Timeout conf) [] w"

text \<open>The \<^verbatim>\<open>stateConf\<close> built at both call sites (lines 124 to 129 and 272 to 277).\<close>

definition stateConf :: "'r GlobalAccelerator \<Rightarrow> arn \<Rightarrow> nat \<Rightarrow> 'r StateChangeConf" where
  "stateConf conn acceleratorArn timeout =
     \<lparr>Pending = [AcceleratorStatusInProgress],
      Target = [AcceleratorStatusDeployed],
      Refresh = resourceAwsGlobalAcceleratorAcceleratorStateRefreshFunc conn acceleratorArn,
      Timeout = timeout\<rparr>"

subsection \<open>Read\<close>

text \<open>
  Lines 147 to 177. \<^verbatim>\<open>Retrieve\<close> hands back a \<^verbatim>\<open>nil\<close> accelerator with a
  \<^verbatim>\<open>nil\<close> error when the entity is not found; line 161 then reads a field of it.
\<close>

definition resourceAwsGlobalAcceleratorAcceleratorRead ::
  "'r GlobalAccelerator \<Rightarrow> ResourceData \<Rightarrow> 'r world
    \<Rightarrow> go_error option \<times> ResourceData \<times> 'r world" where
  "resourceAwsGlobalAcceleratorAcceleratorRead conn d w =
     (case resourceAwsGlobalAcceleratorAcceleratorRetrieve conn (rd_id d) w of
        (Inl err, w1) \<Rightarrow>
          if isAWSErr err ErrCodeAcceleratorNotFoundException [] then (None, SetId [] d, w1)
          else (Some (Errorf ''Error reading Global Accelerator accelerator: '' err), d, w1)
      | (Inr None, w1) \<Rightarrow> (Some NilPointerDereference, d, w1)
      | (Inr (Some accelerator), w1) \<Rightarrow>
          (let d1 = Set_ip_sets
                      (resourceAwsGlobalAcceleratorAcceleratorFlattenIpSets (acc_IpSets accelerator))
                      (Set_enabled (acc_Enabled accelerator)
                        (Set_ip_address_type (acc_IpAddressType accelerator)
                          (Set_name (acc_Name accelerator) d)))
           in case call_DescribeAcceleratorAttributes conn (rd_id d1) w1 of
                (Inl err, w2) \<Rightarrow>
                  (Some (Errorf ''Error reading Global Accelerator accelerator attributes: '' err),
                   d1, w2)
              | (Inr resp, w2) \<Rightarrow>
                  (None,
                   Set_attributes (resourceAwsGlobalAcceleratorAcceleratorFlattenAttributes resp) d1,
                   w2)))"

subsection \<open>Update\<close>

definition resourceAwsGlobalAcceleratorAcceleratorUpdateAttributes ::
  "'r GlobalAccelerator \<Rightarrow> arn \<Rightarrow> attributes_map \<Rightarrow> 'r world \<Rightarrow> go_error option \<times> 'r world" where
  "resourceAwsGlobalAcceleratorAcceleratorUpdateAttributes conn acceleratorArn attributes w =
     (let opts = \<lparr>uai_AcceleratorArn = Some acceleratorArn,
                  uai_FlowLogsEnabled = Some (flow_logs_enabled attributes),
                  uai_FlowLogsS3Bucket =
                    (case flow_logs_s3_bucket attributes of None \<Rightarrow> None | Some v \<Rightarrow> Some v),
                  uai_FlowLogsS3Prefix =
                    (case flow_logs_s3_prefix attributes of None \<Rightarrow> None | Some v \<Rightarrow> Some v)\<rparr>
      in case call_UpdateAcceleratorAttributes conn opts w of
           (Some err, w1) \<Rightarrow>
             (Some (Errorf ''Error updating Global Accelerator accelerator attributes: '' err), w1)
         | (None, w1) \<Rightarrow> (None, w1))"

definition waitErrorPrefix :: "string \<Rightarrow> string" where
  "waitErrorPrefix id' =
     ''Error waiting for Global Accelerator accelerator ('' @ id' @ '') availability: ''"

definition updateAcceleratorOpts :: "ResourceData \<Rightarrow> UpdateAcceleratorInput" where
  "updateAcceleratorOpts d =
     (let opts = \<lparr>ui_AcceleratorArn = Some (rd_id d),
                  ui_Name = Some (Get_name d),
                  ui_Enabled = Some (Get_enabled d),
                  ui_IpAddressType = None\<rparr>
      in case GetOk_ip_address_type d of
           (v, ok) \<Rightarrow> if ok then opts\<lparr>ui_IpAddressType := Some v\<rparr> else opts)"

text \<open>The block of the base fields (lines 250 to 284).\<close>

definition updateBaseFields ::
  "'r GlobalAccelerator \<Rightarrow> ResourceData \<Rightarrow> 'r world
    \<Rightarrow> go_error option \<times> ResourceData \<times> 'r world" where
  "updateBaseFields conn d w =
     (if HasChange_name d \<or> HasChange_ip_address_type d \<or> HasChange_enabled d then
        (case call_UpdateAccelerator conn (updateAcceleratorOpts d) w of
           (Some err, w1) \<Rightarrow>
             (Some (Errorf ''Error updating Global Accelerator accelerator: '' err), d, w1)
         | (None, w1) \<Rightarrow>
             (let d1 = SetPartial ''enabled''
                         (SetPartial ''ip_address_type'' (SetPartial ''name'' d))
              in case WaitForState (stateConf conn (rd_id d1) (rd_timeout_update d1)) w1 of
                   (Inl err, w2) \<Rightarrow> (Some (Errorf (waitErrorPrefix (rd_id d1)) err), d1, w2)
                 | (Inr _, w2) \<Rightarrow> (None, d1, w2)))
      else (None, d, w))"

text \<open>The block of the attributes (lines 286 to 296).\<close>

definition updateAttributesBlock ::
  "'r GlobalAccelerator \<Rightarrow> ResourceData \<Rightarrow> 'r world
    \<Rightarrow> go_error option \<times> ResourceData \<times> 'r world" where
  "updateAttributesBlock conn d w =
     (if HasChange_attributes d then
        (case Get_attributes d of
           [] \<Rightarrow> (None, SetPartial ''attributes'' d, w)
         | v0 # _ \<Rightarrow>
             (case resourceAwsGlobalAcceleratorAcceleratorUpdateAttributes conn (rd_id d) v0 w of
                (Some err, w1) \<Rightarrow> (Some err, d, w1)
              | (None, w1) \<Rightarrow> (None, SetPartial ''attributes'' d, w1)))
      else (None, d, w))"

definition resourceAwsGlobalAcceleratorAcceleratorUpdate ::
  "'r GlobalAccelerator \<Rightarrow> ResourceData \<Rightarrow> 'r world
    \<Rightarrow> go_error option \<times> ResourceData \<times> 'r world" where
  "resourceAwsGlobalAcceleratorAcceleratorUpdate conn d0 w =
     (case updateBaseFields conn (Partial True d0) w of
        (Some err, d1, w1) \<Rightarrow> (Some err, d1, w1)
      | (None, d1, w1) \<Rightarrow>
          (case updateAttributesBlock conn d1 w1 of
             (Some err, d2, w2) \<Rightarrow> (Some err, d2, w2)
           | (None, d2, w2) \<Rightarrow>
               resourceAwsGlobalAcceleratorAcceleratorRead conn (Partial False d2) w2))"

subsection \<open>Create\<close>

text \<open>
  Modelled from the spec: \<^verbatim>\<open>resource.UniqueId\<close> belongs to the framework and is not
  in the source file; the spec calls the token "a fresh, unique value generated
  client-side". Each call renders the counter of the world and advances it.
\<close>

definition UniqueId :: "'r world \<Rightarrow> string \<times> 'r world" where
  "UniqueId w =
     (''terraform-'' @ replicate (uid_counter w) (CHR ''1''),
      w\<lparr>uid_counter := Suc (uid_counter w)\<rparr>)"

definition createAcceleratorOpts :: "ResourceData \<Rightarrow> string \<Rightarrow> CreateAcceleratorInput" where
  "createAcceleratorOpts d token =
     (let opts = \<lparr>ci_Name = Some (Get_name d),
                  ci_IdempotencyToken = Some token,
                  ci_Enabled = Some (Get_enabled d),
                  ci_IpAddressType = None\<rparr>
      in case GetOk_ip_address_type d of
           (v, ok) \<Rightarrow> if ok then opts\<lparr>ci_IpAddressType := Some v\<rparr> else opts)"

text \<open>What follows the wait in Create (lines 137 to 144).\<close>

definition createAttributesAndRead ::
  "'r GlobalAccelerator \<Rightarrow> ResourceData \<Rightarrow> 'r world
    \<Rightarrow> go_error option \<times> ResourceData \<times> 'r world" where
  "createAttributesAndRead conn d w =
     (case Get_attributes d of
        [] \<Rightarrow> resourceAwsGlobalAcceleratorAcceleratorRead conn d w
      | v0 # _ \<Rightarrow>
          (case resourceAwsGlobalAcceleratorAcceleratorUpdateAttributes conn (rd_id d) v0 w of
             (Some err, w1) \<Rightarrow> (Some err, d, w1)
           | (None, w1) \<Rightarrow> resourceAwsGlobalAcceleratorAcceleratorRead conn d w1))"

definition resourceAwsGlobalAcceleratorAcceleratorCreate ::
  "'r GlobalAccelerator \<Rightarrow> ResourceData \<Rightarrow> 'r world
    \<Rightarrow> go_error option \<times> ResourceData \<times> 'r world" where
  "resourceAwsGlobalAcceleratorAcceleratorCreate conn d w =
     (case UniqueId w of
        (token, w0) \<Rightarrow>
          (case call_CreateAccelerator conn (createAcceleratorOpts d token) w0 of
             (Inl err, w1) \<Rightarrow>
               (Some (Errorf ''Error creating Global Accelerator accelerator: '' err), d, w1)
           | (Inr None, w1) \<Rightarrow> (Some NilPointerDereference, d, w1)
           | (Inr (Some accelerator), w1) \<Rightarrow>
               (case acc_AcceleratorArn accelerator of
                  None \<Rightarrow> (Some NilPointerDereference, d, w1)
                | Some acceleratorArn \<Rightarrow>
                    (let d1 = SetId acceleratorArn d
                     in case WaitForState (stateConf conn (rd_id d1) (rd_timeout_create d1)) w1 of
                          (Inl err, w2) \<Rightarrow>
                            (Some (Errorf (waitErrorPrefix (rd_id d1)) err), d1, w2)
                        | (Inr _, w2) \<Rightarrow> createAttributesAndRead conn d1 w2))))"

subsection \<open>The requests of a run\<close>

text \<open>The requests issued between two worlds, when the later log extends the earlier.\<close>

definition issued :: "'r world \<Rightarrow> 'r world \<Rightarrow> api_call list" where
  "issued w w' = drop (length (calls w)) (calls w')"

fun is_read_call :: "api_call \<Rightarrow> bool" where
  "is_read_call (DescribeAcceleratorCall a) = True"
| "is_read_call (DescribeAcceleratorAttributesCall a) = True"
| "is_read_call _ = False"

fun is_UpdateAcceleratorCall :: "api_call \<Rightarrow> bool" where
  "is_UpdateAcceleratorCall (UpdateAcceleratorCall opts) = True"
| "is_UpdateAcceleratorCall _ = False"

fun is_UpdateAcceleratorAttributesCall :: "api_call \<Rightarrow> bool" where
  "is_UpdateAcceleratorAttributesCall (UpdateAcceleratorAttributesCall opts) = True"
| "is_UpdateAcceleratorAttributesCall _ = False"

fun is_CreateAcceleratorCall :: "api_call \<Rightarrow> bool" where
  "is_CreateAcceleratorCall (CreateAcceleratorCall opts) = True"
| "is_CreateAcceleratorCall _ = False"

text \<open>The request that \<^verbatim>\<open>UpdateAttributes\<close> builds from an element of the list.\<close>

definition updateAttributesOpts :: "arn \<Rightarrow> attributes_map \<Rightarrow> UpdateAcceleratorAttributesInput" where
  "updateAttributesOpts acceleratorArn attributes =
     \<lparr>uai_AcceleratorArn = Some acceleratorArn,
      uai_FlowLogsEnabled = Some (flow_logs_enabled attributes),
      uai_FlowLogsS3Bucket = flow_logs_s3_bucket attributes,
      uai_FlowLogsS3Prefix = flow_logs_s3_prefix attributes\<rparr>"

subsection \<open>A test double of the remote service and sample inputs\<close>

text \<open>
  A small in-memory service for the concrete runs below: it stores one accelerator and
  its attributes, reports the accelerator as deployed at once, and answers a request
  for a missing accelerator with the not-found error. The flag makes every
  \<^verbatim>\<open>UpdateAcceleratorAttributes\<close> request fail.
\<close>

record fake_remote =
  fr_accelerator :: "Accelerator option"
  fr_attributes :: "AcceleratorAttributes option"

definition not_found :: go_error where
  "not_found = AWSError ErrCodeAcceleratorNotFoundException ''accelerator not found''"

definition fake_conn :: "bool \<Rightarrow> fake_remote GlobalAccelerator" where
  "fake_conn attributes_fail =
     \<lparr>CreateAccelerator = (\<lambda>opts r.
        (let acc = \<lparr>acc_AcceleratorArn = Some ''arn:accelerator/1'',
                    acc_Name = ci_Name opts,
                    acc_IpAddressType =
                      (case ci_IpAddressType opts of None \<Rightarrow> Some ''IPV4'' | Some t \<Rightarrow> Some t),
                    acc_Enabled = ci_Enabled opts,
                    acc_IpSets = [],
                    acc_Status = Some AcceleratorStatusDeployed\<rparr>
         in (Inr (Some acc), r\<lparr>fr_accelerator := Some acc\<rparr>))),
      DescribeAccelerator = (\<lambda>a r.
        (case fr_accelerator r of
           None \<Rightarrow> (Inl not_found, r)
         | Some acc \<Rightarrow> (Inr (Some acc), r))),
      DescribeAcceleratorAttributes = (\<lambda>a r. (Inr (fr_attributes r), r)),
      UpdateAccelerator = (\<lambda>opts r.
        (case fr_accelerator r of
           None \<Rightarrow> (Some not_found, r)
         | Some acc \<Rightarrow>
             (None, r\<lparr>fr_accelerator :=
                        Some (acc\<lparr>acc_Name := ui_Name opts, acc_Enabled := ui_Enabled opts\<rparr>)\<rparr>))),
      UpdateAcceleratorAttributes = (\<lambda>opts r.
        (if attributes_fail then (Some (AWSError ''InvalidArgumentException'' ''bad bucket''), r)
         else (None, r\<lparr>fr_attributes :=
                         Some \<lparr>attr_FlowLogsEnabled = uai_FlowLogsEnabled opts,
                               attr_FlowLogsS3Bucket = uai_FlowLogsS3Bucket opts,
                               attr_FlowLogsS3Prefix = uai_FlowLogsS3Prefix opts\<rparr>\<rparr>))),
      DeleteAccelerator = (\<lambda>a r.
        (case fr_accelerator r of
           None \<Rightarrow> (Some not_found, r)
         | Some acc \<Rightarrow> (None, r\<lparr>fr_accelerator := None\<rparr>)))\<rparr>"

definition sample_accelerator :: Accelerator where
  "sample_accelerator =
     \<lparr>acc_AcceleratorArn = Some ''arn:accelerator/1'',
      acc_Name = Some ''web'',
      acc_IpAddressType = Some ''IPV4'',
      acc_Enabled = Some True,
      acc_IpSets = [],
      acc_Status = Some AcceleratorStatusDeployed\<rparr>"

definition empty_remote :: fake_remote where
  "empty_remote = \<lparr>fr_accelerator = None, fr_attributes = None\<rparr>"

definition sample_remote :: fake_remote where
  "sample_remote = \<lparr>fr_accelerator = Some sample_accelerator, fr_attributes = None\<rparr>"

definition world_of :: "'r \<Rightarrow> 'r world" where
  "world_of r = \<lparr>remote = r, calls = [], uid_counter = 0\<rparr>"

definition sample_attributes :: attributes_map where
  "sample_attributes =
     \<lparr>flow_logs_enabled = True,
      flow_logs_s3_bucket = Some ''logs'',
      flow_logs_s3_prefix = Some ''ga/''\<rparr>"

definition sample_values :: ResourceValues where
  "sample_values =
     \<lparr>v_name = Some ''web'',
      v_ip_address_type = Some ''IPV4'',
      v_enabled = Some True,
      v_ip_sets = [],
      v_attributes = []\<rparr>"

definition sample_data :: ResourceData where
  "sample_data =
     \<lparr>rd_id = ''arn:accelerator/1'',
      rd_old = sample_values,
      rd_new = sample_values,
      rd_partial = False,
      rd_partial_keys = [],
      rd_timeout_create = 300,
      rd_timeout_update = 300\<rparr>"

text \<open>
  Two updates of the sample resource: one renames it and adds the attributes block, the
  other removes an attributes block that the prior state had.
\<close>

definition update_data :: ResourceData where
  "update_data =
     sample_data\<lparr>rd_new := sample_values\<lparr>v_name := Some ''web2'',
                                           v_attributes := [sample_attributes]\<rparr>\<rparr>"

definition removal_data :: ResourceData where
  "removal_data =
     sample_data\<lparr>rd_old := sample_values\<lparr>v_attributes := [sample_attributes]\<rparr>\<rparr>"

definition unset_data :: ResourceData where
  "unset_data =
     sample_data\<lparr>rd_id := [],
                 rd_new := sample_values\<lparr>v_ip_address_type := None, v_enabled := None\<rparr>\<rparr>"

definition throttled_conn :: "fake_remote GlobalAccelerator" where
  "throttled_conn =
     (fake_conn False)\<lparr>UpdateAccelerator := (\<lambda>opts r. (Some (OtherError ''throttled''), r))\<rparr>"

text \<open>
  A scripted service for the poller: the \<open>n\<close>-th \<^verbatim>\<open>DescribeAccelerator\<close> request
  is answered by \<open>obs n\<close>, whatever the sequence \<open>obs\<close>; the remote state counts the
  answers given. No other request is scripted.
\<close>

definition stub_conn :: "(nat \<Rightarrow> go_error + Accelerator option) \<Rightarrow> nat GlobalAccelerator" where
  "stub_conn obs =
     \<lparr>CreateAccelerator = (\<lambda>opts n. (Inl (OtherError ''not scripted''), n)),
      DescribeAccelerator = (\<lambda>a n. (obs n, Suc n)),
      DescribeAcceleratorAttributes = (\<lambda>a n. (Inl (OtherError ''not scripted''), n)),
      UpdateAccelerator = (\<lambda>opts n. (Some (OtherError ''not scripted''), n)),
      UpdateAcceleratorAttributes = (\<lambda>opts n. (Some (OtherError ''not scripted''), n)),
      DeleteAccelerator = (\<lambda>a n. (Some (OtherError ''not scripted''), n))\<rparr>"

text \<open>
  The kinds of answer: an absence (the not-found error, or a response without an
  accelerator), and an accelerator whose status is the pending status of the call sites.
\<close>

fun is_absent :: "go_error + Accelerator option \<Rightarrow> bool" where
  "is_absent (Inl err) = isAWSErr err ErrCodeAcceleratorNotFoundException []"
| "is_absent (Inr None) = True"
| "is_absent (Inr (Some a)) = False"

fun is_in_progress :: "go_error + Accelerator option \<Rightarrow> bool" where
  "is_in_progress (Inr (Some a)) = (StringValue (acc_Status a) = AcceleratorStatusInProgress)"
| "is_in_progress _ = False"

fun status_of :: "go_error + Accelerator option \<Rightarrow> string" where
  "status_of (Inr (Some a)) = StringValue (acc_Status a)"
| "status_of _ = []"

text \<open>The world after \<open>m\<close> further polls of the scripted service.\<close>

definition polled :: "arn \<Rightarrow> nat \<Rightarrow> nat world \<Rightarrow> nat world" where
  "polled a m w =
     w\<lparr>remote := remote w + m, calls := calls w @ replicate m (DescribeAcceleratorCall a)\<rparr>"

text \<open>
  Scripts for the concrete runs: the accelerator is missing for the first two requests
  and deployed afterwards; missing for ever; in progress for ever; in a status that is
  neither pending nor a target; and missing for the first two requests and in that
  status afterwards.
\<close>

definition late_stream :: "nat \<Rightarrow> go_error + Accelerator option" where
  "late_stream n = (if n < 2 then Inl not_found else Inr (Some sample_accelerator))"


definition in_progress_stream :: "nat \<Rightarrow> go_error + Accelerator option" where
  "in_progress_stream n =
     Inr (Some (sample_accelerator\<lparr>acc_Status := Some AcceleratorStatusInProgress\<rparr>))"

definition failed_stream :: "nat \<Rightarrow> go_error + Accelerator option" where
  "failed_stream n = Inr (Some (sample_accelerator\<lparr>acc_Status := Some ''FAILED''\<rparr>))"

definition late_failed_stream :: "nat \<Rightarrow> go_error + Accelerator option" where
  "late_failed_stream n = (if n < 2 then Inl not_found else failed_stream n)"

section \<open>Properties\<close>

subsection \<open>Auxiliary facts\<close>

lemma Contains_Nil: "Contains m []"
  by (cases m) simp_all

lemma StateRefreshFunc_world:
  "snd (resourceAwsGlobalAcceleratorAcceleratorStateRefreshFunc conn a w) =
     w\<lparr>remote := snd (DescribeAccelerator conn a (remote w)),
       calls := calls w @ [DescribeAcceleratorCall a]\<rparr>"
  by (simp add: resourceAwsGlobalAcceleratorAcceleratorStateRefreshFunc_def
      resourceAwsGlobalAcceleratorAcceleratorRetrieve_def call_DescribeAccelerator_def
      split: prod.splits sum.splits option.splits)

lemma WaitForState_poll_calls:
  "\<exists>k. calls (snd (WaitForState_poll (stateConf conn a t) n l w)) =
         calls w @ replicate k (DescribeAcceleratorCall a)"
proof (induction n arbitrary: l w)
  case 0
  show ?case by (rule exI [of _ 0]) simp
next
  case (Suc n)
  obtain res s err w1 where R:
    "resourceAwsGlobalAcceleratorAcceleratorStateRefreshFunc conn a w = ((res, s, err), w1)"
    by (metis prod.exhaust)
  have c1: "calls w1 = calls w @ [DescribeAcceleratorCall a]"
    using StateRefreshFunc_world [of conn a w] R by simp
  have one: "calls w1 = calls w @ replicate (Suc 0) (DescribeAcceleratorCall a)"
    using c1 by simp
  from Suc.IH [of s w1] obtain k where
    "calls (snd (WaitForState_poll (stateConf conn a t) n s w1)) =
       calls w1 @ replicate k (DescribeAcceleratorCall a)" by blast
  then have more: "calls (snd (WaitForState_poll (stateConf conn a t) n s w1)) =
       calls w @ replicate (Suc k) (DescribeAcceleratorCall a)"
    using c1 by simp
  have step: "snd (WaitForState_poll (stateConf conn a t) (Suc n) l w) = w1
      \<or> snd (WaitForState_poll (stateConf conn a t) (Suc n) l w) =
          snd (WaitForState_poll (stateConf conn a t) n s w1)"
    using R by (simp add: stateConf_def split: option.splits)
  then show ?case
  proof
    assume "snd (WaitForState_poll (stateConf conn a t) (Suc n) l w) = w1"
    with one show ?thesis by metis
  next
    assume "snd (WaitForState_poll (stateConf conn a t) (Suc n) l w) =
          snd (WaitForState_poll (stateConf conn a t) n s w1)"
    with more show ?thesis by metis
  qed
qed

lemma is_absent_status: "is_absent x \<Longrightarrow> status_of x = []"
  by (cases x rule: is_absent.cases) simp_all

lemma polled_polled: "polled a k (polled a (Suc 0) w) = polled a (Suc k) w"
  by (simp add: polled_def replicate_append_same)

lemma polled_0: "polled a 0 w = w"
  by (simp add: polled_def)

lemma stub_refresh_absent:
  "is_absent (obs (remote w)) \<Longrightarrow>
   resourceAwsGlobalAcceleratorAcceleratorStateRefreshFunc (stub_conn obs) a w =
     ((None, [], None), polled a (Suc 0) w)"
  by (cases "obs (remote w)" rule: is_absent.cases)
     (simp_all add: resourceAwsGlobalAcceleratorAcceleratorStateRefreshFunc_def
      resourceAwsGlobalAcceleratorAcceleratorRetrieve_def call_DescribeAccelerator_def
      stub_conn_def polled_def)

lemma stub_refresh_present:
  "obs (remote w) = Inr (Some acc) \<Longrightarrow>
   resourceAwsGlobalAcceleratorAcceleratorStateRefreshFunc (stub_conn obs) a w =
     ((Some acc, StringValue (acc_Status acc), None), polled a (Suc 0) w)"
  by (simp add: resourceAwsGlobalAcceleratorAcceleratorStateRefreshFunc_def
      resourceAwsGlobalAcceleratorAcceleratorRetrieve_def call_DescribeAccelerator_def
      stub_conn_def polled_def)

lemma poll_step_transient:
  assumes "is_absent (obs (remote w)) \<or> is_in_progress (obs (remote w))"
  shows "WaitForState_poll (stateConf (stub_conn obs) a t) (Suc n) l w =
         WaitForState_poll (stateConf (stub_conn obs) a t) n (status_of (obs (remote w)))
           (polled a (Suc 0) w)"
proof (cases "is_absent (obs (remote w))")
  case True
  then show ?thesis
    by (simp add: stateConf_def stub_refresh_absent is_absent_status)
next
  case False
  with assms have p: "is_in_progress (obs (remote w))" by simp
  then obtain acc where o: "obs (remote w) = Inr (Some acc)"
    by (cases "obs (remote w)" rule: is_in_progress.cases) simp_all
  with p have s: "StringValue (acc_Status acc) = AcceleratorStatusInProgress" by simp
  show ?thesis
    using stub_refresh_present [of obs w acc a] o s
    by (simp add: stateConf_def AcceleratorStatusInProgress_def AcceleratorStatusDeployed_def)
qed

lemma poll_step_target:
  assumes "obs (remote w) = Inr (Some acc)"
    and "acc_Status acc = Some AcceleratorStatusDeployed"
  shows "WaitForState_poll (stateConf (stub_conn obs) a t) (Suc n) l w =
         (Inr acc, polled a (Suc 0) w)"
  using assms
  by (simp add: stateConf_def stub_refresh_present StringValue_def)

lemma poll_step_unexpected:
  assumes "obs (remote w) = Inr (Some acc)"
    and "StringValue (acc_Status acc) \<noteq> AcceleratorStatusInProgress"
    and "StringValue (acc_Status acc) \<noteq> AcceleratorStatusDeployed"
  shows "WaitForState_poll (stateConf (stub_conn obs) a t) (Suc n) l w =
         (Inl (UnexpectedStateError (StringValue (acc_Status acc))), polled a (Suc 0) w)"
  using stub_refresh_present [of obs w acc a] assms
  by (simp add: stateConf_def)

lemma poll_transient:
  "(\<forall>i<k. is_absent (obs (remote w + i)) \<or> is_in_progress (obs (remote w + i)))
   \<Longrightarrow> k \<le> n
   \<Longrightarrow> WaitForState_poll (stateConf (stub_conn obs) a t) n l w =
       WaitForState_poll (stateConf (stub_conn obs) a t) (n - k)
         (if k = 0 then l else status_of (obs (remote w + k - 1))) (polled a k w)"
proof (induction k arbitrary: n l w)
  case 0
  then show ?case by (simp add: polled_0)
next
  case (Suc k)
  from Suc.prems(2) obtain n' where n: "n = Suc n'" and kn: "k \<le> n'"
    by (cases n) simp_all
  from Suc.prems(1) have first: "is_absent (obs (remote w)) \<or> is_in_progress (obs (remote w))"
    by (metis add.right_neutral zero_less_Suc)
  have rest: "\<forall>i<k. is_absent (obs (remote (polled a (Suc 0) w) + i))
                  \<or> is_in_progress (obs (remote (polled a (Suc 0) w) + i))"
  proof (intro allI impI)
    fix i assume "i < k"
    then have "Suc i < Suc k" by simp
    with Suc.prems(1) have "is_absent (obs (remote w + Suc i))
        \<or> is_in_progress (obs (remote w + Suc i))" by blast
    then show "is_absent (obs (remote (polled a (Suc 0) w) + i))
        \<or> is_in_progress (obs (remote (polled a (Suc 0) w) + i))"
      by (simp add: polled_def)
  qed
  have "WaitForState_poll (stateConf (stub_conn obs) a t) n l w =
        WaitForState_poll (stateConf (stub_conn obs) a t) n' (status_of (obs (remote w)))
          (polled a (Suc 0) w)"
    unfolding n using first by (rule poll_step_transient [of obs w a t n' l])
  also have "\<dots> = WaitForState_poll (stateConf (stub_conn obs) a t) (n' - k)
         (if k = 0 then status_of (obs (remote w))
          else status_of (obs (remote (polled a (Suc 0) w) + k - 1)))
         (polled a k (polled a (Suc 0) w))"
    using rest kn by (rule Suc.IH [of "polled a (Suc 0) w" n' "status_of (obs (remote w))"])
  also have "\<dots> = WaitForState_poll (stateConf (stub_conn obs) a t) (n - Suc k)
         (if Suc k = 0 then l else status_of (obs (remote w + Suc k - 1)))
         (polled a (Suc k) w)"
    by (simp add: n polled_polled) (simp add: polled_def)
  finally show ?case .
qed

lemma refresh_present:
  "DescribeAccelerator conn a (remote w) = (Inr (Some acc), r) \<Longrightarrow>
   resourceAwsGlobalAcceleratorAcceleratorStateRefreshFunc conn a w =
     ((Some acc, StringValue (acc_Status acc), None),
      w\<lparr>remote := r, calls := calls w @ [DescribeAcceleratorCall a]\<rparr>)"
  by (simp add: resourceAwsGlobalAcceleratorAcceleratorStateRefreshFunc_def
      resourceAwsGlobalAcceleratorAcceleratorRetrieve_def call_DescribeAccelerator_def)

lemma issued_append: "calls w' = calls w @ xs \<Longrightarrow> issued w w' = xs"
  by (simp add: issued_def)

lemma read_calls_no_mutation:
  "list_all is_read_call xs \<Longrightarrow>
     filter is_CreateAcceleratorCall xs = [] \<and> filter is_UpdateAcceleratorCall xs = []
     \<and> filter is_UpdateAcceleratorAttributesCall xs = []"
proof (induction xs)
  case Nil
  then show ?case by simp
next
  case (Cons x xs)
  then show ?case by (cases x) simp_all
qed

lemma replicate_describe_read: "list_all is_read_call (replicate k (DescribeAcceleratorCall a))"
  by (induction k) simp_all

lemma WaitForState_calls:
  "\<exists>xs. calls (snd (WaitForState (stateConf conn a t) w)) = calls w @ xs
        \<and> list_all is_read_call xs"
proof -
  from WaitForState_poll_calls [of conn a t t "[]" w] obtain k where
    "calls (snd (WaitForState_poll (stateConf conn a t) t [] w)) =
       calls w @ replicate k (DescribeAcceleratorCall a)" by blast
  then have "calls (snd (WaitForState (stateConf conn a t) w)) =
       calls w @ replicate k (DescribeAcceleratorCall a)"
    by (simp add: WaitForState_def stateConf_def)
  then show ?thesis using replicate_describe_read by blast
qed

lemma Read_calls:
  "\<exists>xs. calls (snd (snd (resourceAwsGlobalAcceleratorAcceleratorRead conn d w))) = calls w @ xs
        \<and> list_all is_read_call xs"
proof -
  let ?w' = "snd (snd (resourceAwsGlobalAcceleratorAcceleratorRead conn d w))"
  have "calls ?w' = calls w @ [DescribeAcceleratorCall (rd_id d)]
      \<or> calls ?w' = calls w @ [DescribeAcceleratorCall (rd_id d),
                               DescribeAcceleratorAttributesCall (rd_id d)]"
    by (simp add: resourceAwsGlobalAcceleratorAcceleratorRead_def
        resourceAwsGlobalAcceleratorAcceleratorRetrieve_def call_DescribeAccelerator_def
        call_DescribeAcceleratorAttributes_def Set_ip_sets_def Set_enabled_def
        Set_ip_address_type_def Set_name_def Let_def
        split: prod.splits sum.splits option.splits)
  then show ?thesis
  proof
    assume "calls ?w' = calls w @ [DescribeAcceleratorCall (rd_id d)]"
    then show ?thesis by (intro exI [of _ "[DescribeAcceleratorCall (rd_id d)]"]) simp
  next
    assume "calls ?w' = calls w @ [DescribeAcceleratorCall (rd_id d),
                               DescribeAcceleratorAttributesCall (rd_id d)]"
    then show ?thesis
      by (intro exI [of _ "[DescribeAcceleratorCall (rd_id d),
                               DescribeAcceleratorAttributesCall (rd_id d)]"]) simp
  qed
qed

lemma UpdateAttributes_result:
  "resourceAwsGlobalAcceleratorAcceleratorUpdateAttributes conn a v w =
     (case UpdateAcceleratorAttributes conn (updateAttributesOpts a v) (remote w) of
        (err, r) \<Rightarrow>
          (case err of
             None \<Rightarrow> None
           | Some e \<Rightarrow>
               Some (Errorf ''Error updating Global Accelerator accelerator attributes: '' e),
           w\<lparr>remote := r,
             calls := calls w @ [UpdateAcceleratorAttributesCall (updateAttributesOpts a v)]\<rparr>))"
proof -
  have o: "\<lparr>uai_AcceleratorArn = Some a,
            uai_FlowLogsEnabled = Some (flow_logs_enabled v),
            uai_FlowLogsS3Bucket =
              (case flow_logs_s3_bucket v of None \<Rightarrow> None | Some x \<Rightarrow> Some x),
            uai_FlowLogsS3Prefix =
              (case flow_logs_s3_prefix v of None \<Rightarrow> None | Some x \<Rightarrow> Some x)\<rparr> =
           updateAttributesOpts a v"
    by (simp add: updateAttributesOpts_def split: option.splits)
  show ?thesis
    unfolding resourceAwsGlobalAcceleratorAcceleratorUpdateAttributes_def Let_def o
    by (simp add: call_UpdateAcceleratorAttributes_def split: prod.splits option.splits)
qed

lemma UpdateAttributes_calls:
  "calls (snd (resourceAwsGlobalAcceleratorAcceleratorUpdateAttributes conn a v w)) =
     calls w @ [UpdateAcceleratorAttributesCall (updateAttributesOpts a v)]"
  by (simp add: UpdateAttributes_result split: prod.splits)

lemma updateBaseFields_unchanged:
  "\<not> (HasChange_name d \<or> HasChange_ip_address_type d \<or> HasChange_enabled d) \<Longrightarrow>
   updateBaseFields conn d w = (None, d, w)"
  by (simp add: updateBaseFields_def)

lemma SetPartial_fields [simp]:
  "rd_id (SetPartial k d) = rd_id d"
  "rd_old (SetPartial k d) = rd_old d"
  "rd_new (SetPartial k d) = rd_new d"
  "rd_partial (SetPartial k d) = rd_partial d"
  "rd_timeout_update (SetPartial k d) = rd_timeout_update d"
  "rd_timeout_create (SetPartial k d) = rd_timeout_create d"
  by (simp_all add: SetPartial_def)

lemma Partial_fields [simp]:
  "rd_id (Partial b d) = rd_id d"
  "rd_old (Partial b d) = rd_old d"
  "rd_new (Partial b d) = rd_new d"
  "rd_partial (Partial b d) = b"
  "rd_partial_keys (Partial b d) = rd_partial_keys d"
  "rd_timeout_update (Partial b d) = rd_timeout_update d"
  "rd_timeout_create (Partial b d) = rd_timeout_create d"
  by (simp_all add: Partial_def)

lemma updateBaseFields_data:
  "rd_id (fst (snd (updateBaseFields conn d w))) = rd_id d
   \<and> rd_old (fst (snd (updateBaseFields conn d w))) = rd_old d
   \<and> rd_new (fst (snd (updateBaseFields conn d w))) = rd_new d
   \<and> rd_partial (fst (snd (updateBaseFields conn d w))) = rd_partial d"
  by (simp add: updateBaseFields_def Let_def split: prod.splits option.splits sum.splits)

lemma updateBaseFields_calls:
  assumes "HasChange_name d \<or> HasChange_ip_address_type d \<or> HasChange_enabled d"
  shows "\<exists>xs. calls (snd (snd (updateBaseFields conn d w))) =
              calls w @ UpdateAcceleratorCall (updateAcceleratorOpts d) # xs
            \<and> list_all is_read_call xs"
proof -
  obtain err w1 where c: "call_UpdateAccelerator conn (updateAcceleratorOpts d) w = (err, w1)"
    by (metis prod.exhaust)
  then have c1: "calls w1 = calls w @ [UpdateAcceleratorCall (updateAcceleratorOpts d)]"
    by (auto simp add: call_UpdateAccelerator_def split: prod.splits)
  show ?thesis
  proof (cases err)
    case (Some e)
    with assms c have "snd (snd (updateBaseFields conn d w)) = w1"
      by (simp add: updateBaseFields_def)
    with c1 show ?thesis by (intro exI [of _ "[]"]) simp
  next
    case None
    with assms c have "snd (snd (updateBaseFields conn d w)) =
        snd (WaitForState (stateConf conn (rd_id d) (rd_timeout_update d)) w1)"
      by (simp add: updateBaseFields_def Let_def split: prod.splits sum.splits)
    moreover from WaitForState_calls [of conn "rd_id d" "rd_timeout_update d" w1]
    obtain xs where "calls (snd (WaitForState (stateConf conn (rd_id d) (rd_timeout_update d)) w1))
        = calls w1 @ xs" and "list_all is_read_call xs" by blast
    ultimately have "calls (snd (snd (updateBaseFields conn d w))) =
        calls w @ UpdateAcceleratorCall (updateAcceleratorOpts d) # xs
        \<and> list_all is_read_call xs"
      using c1 by simp
    then show ?thesis by blast
  qed
qed

lemma updateAttributesBlock_calls:
  "calls (snd (snd (updateAttributesBlock conn d w))) =
     calls w @ (case Get_attributes d of
                  [] \<Rightarrow> []
                | v0 # _ \<Rightarrow>
                    if HasChange_attributes d
                    then [UpdateAcceleratorAttributesCall (updateAttributesOpts (rd_id d) v0)]
                    else [])"
  by (simp add: updateAttributesBlock_def UpdateAttributes_result
      split: list.splits prod.splits option.splits)

lemma updateAttributesBlock_unchanged:
  "\<not> HasChange_attributes d \<Longrightarrow> updateAttributesBlock conn d w = (None, d, w)"
  by (simp add: updateAttributesBlock_def)

lemma Update_world:
  "snd (snd (resourceAwsGlobalAcceleratorAcceleratorUpdate conn d w)) =
     (case updateBaseFields conn (Partial True d) w of
        (Some err, d1, w1) \<Rightarrow> w1
      | (None, d1, w1) \<Rightarrow>
          (case updateAttributesBlock conn d1 w1 of
             (Some err, d2, w2) \<Rightarrow> w2
           | (None, d2, w2) \<Rightarrow>
               snd (snd (resourceAwsGlobalAcceleratorAcceleratorRead conn (Partial False d2) w2))))"
  by (simp add: resourceAwsGlobalAcceleratorAcceleratorUpdate_def
      split: prod.splits option.splits)

lemma HasChange_Partial [simp]:
  "HasChange_name (Partial b d) = HasChange_name d"
  "HasChange_ip_address_type (Partial b d) = HasChange_ip_address_type d"
  "HasChange_enabled (Partial b d) = HasChange_enabled d"
  "HasChange_attributes (Partial b d) = HasChange_attributes d"
  "Get_attributes (Partial b d) = Get_attributes d"
  "updateAcceleratorOpts (Partial b d) = updateAcceleratorOpts d"
  by (simp_all add: HasChange_name_def HasChange_ip_address_type_def HasChange_enabled_def
      HasChange_attributes_def Get_attributes_def updateAcceleratorOpts_def Get_name_def
      Get_enabled_def GetOk_ip_address_type_def)

lemma Update_calls:
  "\<exists>xs ys.
     calls (snd (snd (resourceAwsGlobalAcceleratorAcceleratorUpdate conn d w))) =
       calls w
       @ (if HasChange_name d \<or> HasChange_ip_address_type d \<or> HasChange_enabled d
          then UpdateAcceleratorCall (updateAcceleratorOpts d) # xs else [])
       @ (case Get_attributes d of
            [] \<Rightarrow> []
          | v0 # _ \<Rightarrow>
              if HasChange_attributes d \<and> fst (updateBaseFields conn (Partial True d) w) = None
              then [UpdateAcceleratorAttributesCall (updateAttributesOpts (rd_id d) v0)]
              else [])
       @ ys
     \<and> list_all is_read_call xs \<and> list_all is_read_call ys"
proof -
  let ?B = "HasChange_name d \<or> HasChange_ip_address_type d \<or> HasChange_enabled d"
  let ?d0 = "Partial True d"
  obtain e1 d1 w1 where u: "updateBaseFields conn ?d0 w = (e1, d1, w1)"
    by (metis prod.exhaust)
  have d1: "rd_id d1 = rd_id d" "rd_old d1 = rd_old d" "rd_new d1 = rd_new d"
    using updateBaseFields_data [of conn ?d0 w] u by simp_all
  have a1: "HasChange_attributes d1 = HasChange_attributes d"
    "Get_attributes d1 = Get_attributes d"
    by (simp_all add: HasChange_attributes_def Get_attributes_def d1)
  obtain xs where x1: "calls w1 = calls w @ (if ?B then
      UpdateAcceleratorCall (updateAcceleratorOpts d) # xs else [])"
    and r1: "list_all is_read_call xs"
  proof (cases ?B)
    case True
    then have "HasChange_name ?d0 \<or> HasChange_ip_address_type ?d0 \<or> HasChange_enabled ?d0"
      by simp
    from updateBaseFields_calls [OF this, of conn w] u True that show ?thesis
      by auto
  next
    case False
    then have "updateBaseFields conn ?d0 w = (None, ?d0, w)"
      by (simp add: updateBaseFields_unchanged)
    with u False that [of "[]"] show ?thesis by simp
  qed
  show ?thesis
  proof (cases e1)
    case (Some e)
    with u have "snd (snd (resourceAwsGlobalAcceleratorAcceleratorUpdate conn d w)) = w1"
      by (simp add: Update_world)
    with x1 r1 Some u show ?thesis
      by - (rule exI [of _ xs], rule exI [of _ "[]"], simp split: list.splits)
  next
    case None
    let ?X2 = "case Get_attributes d of
            [] \<Rightarrow> []
          | v0 # _ \<Rightarrow>
              if HasChange_attributes d
              then [UpdateAcceleratorAttributesCall (updateAttributesOpts (rd_id d) v0)]
              else []"
    obtain e2 d2 w2 where b: "updateAttributesBlock conn d1 w1 = (e2, d2, w2)"
      by (metis prod.exhaust)
    have x2: "calls w2 = calls w1 @ ?X2"
      using updateAttributesBlock_calls [of conn d1 w1] b
      by (simp add: a1 d1 split: list.splits)
    obtain ys where x3:
      "calls (snd (snd (resourceAwsGlobalAcceleratorAcceleratorUpdate conn d w))) = calls w2 @ ys"
      and r3: "list_all is_read_call ys"
    proof (cases e2)
      case (Some e)
      with u None b
      have "snd (snd (resourceAwsGlobalAcceleratorAcceleratorUpdate conn d w)) = w2"
        by (simp add: Update_world)
      with that [of "[]"] show ?thesis by simp
    next
      case None2: None
      with u None b
      have "snd (snd (resourceAwsGlobalAcceleratorAcceleratorUpdate conn d w)) =
            snd (snd (resourceAwsGlobalAcceleratorAcceleratorRead conn (Partial False d2) w2))"
        by (simp add: Update_world)
      with Read_calls [of conn "Partial False d2" w2] that show ?thesis by auto
    qed
    have f: "fst (updateBaseFields conn ?d0 w) = None" using u None by simp
    have "calls (snd (snd (resourceAwsGlobalAcceleratorAcceleratorUpdate conn d w))) =
       calls w
       @ (if ?B then UpdateAcceleratorCall (updateAcceleratorOpts d) # xs else [])
       @ ?X2 @ ys"
      using x1 x2 x3 by simp
    with r1 r3 f show ?thesis
      by - (rule exI [of _ xs], rule exI [of _ ys], simp split: list.splits)
  qed
qed

lemma WaitForState_deployed_now:
  assumes "DescribeAccelerator conn a (remote w) = (Inr (Some acc), r)"
    and "acc_Status acc = Some AcceleratorStatusDeployed"
    and "0 < t"
  shows "WaitForState (stateConf conn a t) w =
           (Inr acc, w\<lparr>remote := r, calls := calls w @ [DescribeAcceleratorCall a]\<rparr>)"
proof -
  from assms(3) obtain n where t: "t = Suc n" by (cases t) simp_all
  show ?thesis
    unfolding WaitForState_def
    using refresh_present [OF assms(1), of ] assms(2)
    by (simp add: stateConf_def t StringValue_def)
qed

lemma createAttributesAndRead_calls:
  "\<exists>xs. calls (snd (snd (createAttributesAndRead conn d w))) = calls w @ xs
        \<and> filter is_CreateAcceleratorCall xs = []"
proof (cases "Get_attributes d")
  case Nil
  then have "createAttributesAndRead conn d w =
      resourceAwsGlobalAcceleratorAcceleratorRead conn d w"
    by (simp add: createAttributesAndRead_def)
  with Read_calls [of conn d w] read_calls_no_mutation show ?thesis by auto
next
  case (Cons v0 vs)
  let ?u = "resourceAwsGlobalAcceleratorAcceleratorUpdateAttributes conn (rd_id d) v0 w"
  let ?c = "UpdateAcceleratorAttributesCall (updateAttributesOpts (rd_id d) v0)"
  have uc: "calls (snd ?u) = calls w @ [?c]" by (rule UpdateAttributes_calls)
  show ?thesis
  proof (cases "fst ?u")
    case (Some e)
    with Cons have "snd (snd (createAttributesAndRead conn d w)) = snd ?u"
      by (simp add: createAttributesAndRead_def case_prod_beta)
    with uc show ?thesis by (intro exI [of _ "[?c]"]) simp
  next
    case None
    with Cons have "createAttributesAndRead conn d w =
        resourceAwsGlobalAcceleratorAcceleratorRead conn d (snd ?u)"
      by (simp add: createAttributesAndRead_def case_prod_beta)
    moreover from Read_calls [of conn d "snd ?u"] obtain ys where
      "calls (snd (snd (resourceAwsGlobalAcceleratorAcceleratorRead conn d (snd ?u)))) =
         calls (snd ?u) @ ys" and "list_all is_read_call ys" by blast
    ultimately have "calls (snd (snd (createAttributesAndRead conn d w))) = calls w @ ?c # ys
        \<and> filter is_CreateAcceleratorCall (?c # ys) = []"
      using uc read_calls_no_mutation by simp
    then show ?thesis by blast
  qed
qed

lemma Create_calls:
  "\<exists>rest. calls (snd (snd (resourceAwsGlobalAcceleratorAcceleratorCreate conn d w))) =
            calls w @ CreateAcceleratorCall (createAcceleratorOpts d (fst (UniqueId w))) # rest
          \<and> filter is_CreateAcceleratorCall rest = []"
proof -
  let ?opts = "createAcceleratorOpts d (fst (UniqueId w))"
  let ?w0 = "snd (UniqueId w)"
  let ?res = "snd (snd (resourceAwsGlobalAcceleratorAcceleratorCreate conn d w))"
  obtain resp w1 where c: "call_CreateAccelerator conn ?opts ?w0 = (resp, w1)"
    by (metis prod.exhaust)
  then have c1: "calls w1 = calls w @ [CreateAcceleratorCall ?opts]"
    by (auto simp add: call_CreateAccelerator_def UniqueId_def split: prod.splits)
  have stop: ?thesis if "?res = w1"
    using that c1 by (intro exI [of _ "[]"]) simp
  show ?thesis
  proof (cases resp)
    case (Inl e)
    with c have "?res = w1"
      by (simp add: resourceAwsGlobalAcceleratorAcceleratorCreate_def case_prod_beta)
    then show ?thesis by (rule stop)
  next
    case (Inr ao)
    show ?thesis
    proof (cases ao)
      case None
      with Inr c have "?res = w1"
        by (simp add: resourceAwsGlobalAcceleratorAcceleratorCreate_def case_prod_beta)
      then show ?thesis by (rule stop)
    next
      case (Some accelerator)
      show ?thesis
      proof (cases "acc_AcceleratorArn accelerator")
        case None
        with Some Inr c have "?res = w1"
          by (simp add: resourceAwsGlobalAcceleratorAcceleratorCreate_def case_prod_beta)
        then show ?thesis by (rule stop)
      next
        case (Some acceleratorArn)
        let ?d1 = "SetId acceleratorArn d"
        let ?wt = "WaitForState (stateConf conn (rd_id ?d1) (rd_timeout_create ?d1)) w1"
        from WaitForState_calls [of conn "rd_id ?d1" "rd_timeout_create ?d1" w1]
        obtain xs where x: "calls (snd ?wt) = calls w1 @ xs" and rx: "list_all is_read_call xs"
          by blast
        have "?res = snd ?wt \<or> ?res = snd (snd (createAttributesAndRead conn ?d1 (snd ?wt)))"
          using Some \<open>ao = Some accelerator\<close> Inr c
          by (simp add: resourceAwsGlobalAcceleratorAcceleratorCreate_def Let_def
              case_prod_beta split: sum.splits)
        then show ?thesis
        proof
          assume "?res = snd ?wt"
          with x c1 have "calls ?res = calls w @ CreateAcceleratorCall ?opts # xs" by simp
          with rx read_calls_no_mutation show ?thesis by blast
        next
          assume r: "?res = snd (snd (createAttributesAndRead conn ?d1 (snd ?wt)))"
          from createAttributesAndRead_calls [of conn ?d1 "snd ?wt"] obtain ys where
            "calls (snd (snd (createAttributesAndRead conn ?d1 (snd ?wt)))) =
               calls (snd ?wt) @ ys" and ny: "filter is_CreateAcceleratorCall ys = []"
            by blast
          with r x c1 have "calls ?res = calls w @ CreateAcceleratorCall ?opts # (xs @ ys)"
            by simp
          moreover have "filter is_CreateAcceleratorCall (xs @ ys) = []"
            using ny read_calls_no_mutation [OF rx] by simp
          ultimately show ?thesis by blast
        qed
      qed
    qed
  qed
qed

lemmas sample_defs = sample_data_def sample_values_def sample_attributes_def
  sample_remote_def sample_accelerator_def update_data_def removal_data_def world_of_def
  fake_conn_def throttled_conn_def empty_remote_def not_found_def

lemmas data_defs = HasChange_name_def HasChange_ip_address_type_def HasChange_enabled_def
  HasChange_attributes_def Get_attributes_def Get_name_def Get_enabled_def
  GetOk_ip_address_type_def StringValue_def BoolValue_def SetPartial_def Partial_def
  SetId_def Set_name_def Set_ip_address_type_def Set_enabled_def Set_ip_sets_def
  Set_attributes_def

lemma update_data_base_step:
  "updateBaseFields (fake_conn b) (Partial True update_data) (world_of sample_remote) =
     (None,
      SetPartial ''enabled'' (SetPartial ''ip_address_type''
        (SetPartial ''name'' (Partial True update_data))),
      \<lparr>remote = sample_remote\<lparr>fr_accelerator :=
                  Some (sample_accelerator\<lparr>acc_Name := Some ''web2''\<rparr>)\<rparr>,
       calls = [UpdateAcceleratorCall (updateAcceleratorOpts update_data),
                DescribeAcceleratorCall ''arn:accelerator/1''],
       uid_counter = 0\<rparr>)"
proof -
  let ?r1 = "sample_remote\<lparr>fr_accelerator :=
               Some (sample_accelerator\<lparr>acc_Name := Some ''web2''\<rparr>)\<rparr>"
  let ?w1 = "\<lparr>remote = ?r1,
              calls = [UpdateAcceleratorCall (updateAcceleratorOpts update_data)],
              uid_counter = 0\<rparr>"
  have c: "HasChange_name (Partial True update_data)"
    by (simp add: sample_defs data_defs)
  have u: "call_UpdateAccelerator (fake_conn b)
             (updateAcceleratorOpts (Partial True update_data)) (world_of sample_remote) =
           (None, ?w1)"
    by (simp add: call_UpdateAccelerator_def updateAcceleratorOpts_def sample_defs data_defs)
  have d: "DescribeAccelerator (fake_conn b) ''arn:accelerator/1'' (remote ?w1) =
             (Inr (Some (sample_accelerator\<lparr>acc_Name := Some ''web2''\<rparr>)), ?r1)"
    by (simp add: sample_defs)
  have s: "acc_Status (sample_accelerator\<lparr>acc_Name := Some ''web2''\<rparr>) =
             Some AcceleratorStatusDeployed"
    by (simp add: sample_defs)
  have w: "WaitForState (stateConf (fake_conn b) ''arn:accelerator/1'' 300) ?w1 =
             (Inr (sample_accelerator\<lparr>acc_Name := Some ''web2''\<rparr>),
              ?w1\<lparr>remote := ?r1,
                   calls := calls ?w1 @ [DescribeAcceleratorCall ''arn:accelerator/1'']\<rparr>)"
    by (rule WaitForState_deployed_now [OF d s]) simp
  have i: "rd_id update_data = ''arn:accelerator/1''" "rd_timeout_update update_data = 300"
    by (simp_all add: sample_defs)
  show ?thesis
    using c u w by (simp add: updateBaseFields_def i)
qed

subsection \<open>Read of an accelerator that is not found\<close>

text \<open>
  Claim C1 says that Read, for an id the remote reports as not found, clears the stored
  id and returns no error. The code does not: \<^verbatim>\<open>Retrieve\<close> turns the not-found
  error into a \<^verbatim>\<open>nil\<close> accelerator with a \<^verbatim>\<open>nil\<close> error (line 237), so the
  branch of Read that clears the id (lines 152 to 157) is never entered, and line 161
  reads \<^verbatim>\<open>accelerator.Name\<close> through the \<^verbatim>\<open>nil\<close> pointer. The run ends in a
  panic after the one describe request, with the id still stored.
\<close>

theorem Read_not_found_panics:
  "DescribeAccelerator conn (rd_id d) (remote w) =
     (Inl (AWSError ErrCodeAcceleratorNotFoundException m), r)
   \<Longrightarrow> resourceAwsGlobalAcceleratorAcceleratorRead conn d w =
        (Some NilPointerDereference, d,
         w\<lparr>remote := r, calls := calls w @ [DescribeAcceleratorCall (rd_id d)]\<rparr>)"
  by (simp add: resourceAwsGlobalAcceleratorAcceleratorRead_def
      resourceAwsGlobalAcceleratorAcceleratorRetrieve_def call_DescribeAccelerator_def
      Contains_Nil)

theorem Read_not_found_panics_witness:
  "resourceAwsGlobalAcceleratorAcceleratorRead (fake_conn False) sample_data
     (world_of empty_remote) =
     (Some NilPointerDereference, sample_data,
      \<lparr>remote = empty_remote, calls = [DescribeAcceleratorCall ''arn:accelerator/1''],
       uid_counter = 0\<rparr>)
   \<and> rd_id sample_data \<noteq> []"
proof -
  have h: "DescribeAccelerator (fake_conn False) (rd_id sample_data)
             (remote (world_of empty_remote)) =
           (Inl (AWSError ErrCodeAcceleratorNotFoundException ''accelerator not found''),
            empty_remote)"
    by (simp add: fake_conn_def world_of_def empty_remote_def not_found_def)
  show ?thesis
    using Read_not_found_panics [OF h]
    by (simp add: world_of_def sample_data_def)
qed

subsection \<open>Delete\<close>

text \<open>
  Claim C7: Delete issues the delete request for the stored id; when the remote answers
  with the not-found error, Delete returns no error; any other error of the request is
  returned to the caller, wrapped with its cause; a request that succeeds returns no
  error. In each case exactly the one request is issued.
\<close>

theorem Delete_not_found_is_success:
  "(\<forall>m r. DeleteAccelerator conn (rd_id d) (remote w) =
            (Some (AWSError ErrCodeAcceleratorNotFoundException m), r)
      \<longrightarrow> resourceAwsGlobalAcceleratorAcceleratorDelete conn d w =
            (None, d, w\<lparr>remote := r, calls := calls w @ [DeleteAcceleratorCall (rd_id d)]\<rparr>))
   \<and> (\<forall>err r. DeleteAccelerator conn (rd_id d) (remote w) = (Some err, r)
        \<and> \<not> isAWSErr err ErrCodeAcceleratorNotFoundException []
      \<longrightarrow> resourceAwsGlobalAcceleratorAcceleratorDelete conn d w =
            (Some (Errorf ''Error deleting Global Accelerator accelerator: '' err), d,
             w\<lparr>remote := r, calls := calls w @ [DeleteAcceleratorCall (rd_id d)]\<rparr>))
   \<and> (\<forall>r. DeleteAccelerator conn (rd_id d) (remote w) = (None, r)
      \<longrightarrow> resourceAwsGlobalAcceleratorAcceleratorDelete conn d w =
            (None, d, w\<lparr>remote := r, calls := calls w @ [DeleteAcceleratorCall (rd_id d)]\<rparr>))"
  by (simp add: resourceAwsGlobalAcceleratorAcceleratorDelete_def call_DeleteAccelerator_def
      Contains_Nil)

theorem Delete_not_found_is_success_witness:
  "fst (resourceAwsGlobalAcceleratorAcceleratorDelete (fake_conn False) sample_data
         (world_of empty_remote)) = None
   \<and> fst (resourceAwsGlobalAcceleratorAcceleratorDelete
           ((fake_conn False)\<lparr>DeleteAccelerator :=
              (\<lambda>a r. (Some (OtherError ''connection reset''), r))\<rparr>)
           sample_data (world_of sample_remote)) =
       Some (Errorf ''Error deleting Global Accelerator accelerator: ''
              (OtherError ''connection reset''))
   \<and> fst (resourceAwsGlobalAcceleratorAcceleratorDelete (fake_conn False) sample_data
           (world_of sample_remote)) = None"
proof -
  let ?broken = "(fake_conn False)\<lparr>DeleteAccelerator :=
                   (\<lambda>a r. (Some (OtherError ''connection reset''), r))\<rparr>"
  have h1: "DeleteAccelerator (fake_conn False) (rd_id sample_data)
              (remote (world_of empty_remote)) =
            (Some (AWSError ErrCodeAcceleratorNotFoundException ''accelerator not found''),
             empty_remote)"
    by (simp add: fake_conn_def world_of_def empty_remote_def not_found_def)
  have h2: "DeleteAccelerator ?broken (rd_id sample_data) (remote (world_of sample_remote)) =
              (Some (OtherError ''connection reset''), sample_remote)
            \<and> \<not> isAWSErr (OtherError ''connection reset'')
                  ErrCodeAcceleratorNotFoundException []"
    by (simp add: world_of_def)
  have h3: "DeleteAccelerator (fake_conn False) (rd_id sample_data)
              (remote (world_of sample_remote)) =
            (None, sample_remote\<lparr>fr_accelerator := None\<rparr>)"
    by (simp add: fake_conn_def world_of_def sample_remote_def)
  have a: "fst (resourceAwsGlobalAcceleratorAcceleratorDelete (fake_conn False) sample_data
                 (world_of empty_remote)) = None"
    using Delete_not_found_is_success [of "fake_conn False" sample_data "world_of empty_remote"]
      h1 by simp
  have b: "fst (resourceAwsGlobalAcceleratorAcceleratorDelete ?broken sample_data
                 (world_of sample_remote)) =
           Some (Errorf ''Error deleting Global Accelerator accelerator: ''
                  (OtherError ''connection reset''))"
    using Delete_not_found_is_success [of ?broken sample_data "world_of sample_remote"]
      h2 by simp
  have c: "fst (resourceAwsGlobalAcceleratorAcceleratorDelete (fake_conn False) sample_data
                 (world_of sample_remote)) = None"
    using Delete_not_found_is_success [of "fake_conn False" sample_data "world_of sample_remote"]
      h3 by simp
  from a b c show ?thesis by blast
qed

subsection \<open>The state projector\<close>

text \<open>
  Claim C8: flattening the attributes never fails. A missing sub-resource gives the
  empty list; a present one gives exactly one element, whose fields are the values of
  the remote entity where the server sent them and otherwise \<open>False\<close> for
  \<^verbatim>\<open>flow_logs_enabled\<close> and the empty string for the bucket and the prefix.
\<close>

theorem FlattenAttributes_total:
  "resourceAwsGlobalAcceleratorAcceleratorFlattenAttributes None = []
   \<and> resourceAwsGlobalAcceleratorAcceleratorFlattenAttributes (Some a) =
       [\<lparr>flow_logs_enabled = (case attr_FlowLogsEnabled a of None \<Rightarrow> False | Some b \<Rightarrow> b),
         flow_logs_s3_bucket = Some (case attr_FlowLogsS3Bucket a of None \<Rightarrow> [] | Some s \<Rightarrow> s),
         flow_logs_s3_prefix = Some (case attr_FlowLogsS3Prefix a of None \<Rightarrow> [] | Some s \<Rightarrow> s)\<rparr>]"
  by (simp add: resourceAwsGlobalAcceleratorAcceleratorFlattenAttributes_def
      BoolValue_def StringValue_def)

subsection \<open>Diff suppression\<close>

text \<open>
  Claim C9: the diff-suppression function of the attributes block is true exactly when
  the old value is "1" and the new value is "0"; in particular old "0" with new "1" is
  not suppressed.
\<close>

theorem DiffSuppressFunc_exact:
  "DiffSuppressFunc k old new d = (old = ''1'' \<and> new = ''0'')
   \<and> \<not> DiffSuppressFunc k ''0'' ''1'' d"
  by (simp add: DiffSuppressFunc_def)

subsection \<open>The state poller\<close>



text \<open>
  Claim C5, as amended. When each of the first \<open>T\<close> answers is an absence or an
  accelerator in the pending status, the wait with timeout \<open>T\<close> fails with the
  timeout error carrying the last observed status (the empty status when nothing was
  observed or the last answer was an absence), after exactly \<open>T\<close> describe requests.
  An observation whose status is neither pending nor a target ends the wait at once
  with the unexpected-status error carrying that status: against a scripted service,
  after \<open>k\<close> absent or pending answers within the deadline and \<open>k + 1\<close> requests;
  and for the poller with any configuration, at any point of the loop where a poll is
  made. The poller is a total function, so it always returns.
\<close>

theorem WaitForState_times_out:
  "((\<forall>i<T. is_absent (obs (remote w + i)) \<or> is_in_progress (obs (remote w + i))) \<longrightarrow>
      WaitForState (stateConf (stub_conn obs) a T) w =
        (Inl (TimeoutError (if T = 0 then [] else status_of (obs (remote w + T - 1)))),
         polled a T w))
   \<and> (\<forall>acc. (\<forall>i<k. is_absent (obs (remote w + i)) \<or> is_in_progress (obs (remote w + i)))
          \<and> k < T \<and> obs (remote w + k) = Inr (Some acc)
          \<and> StringValue (acc_Status acc) \<noteq> AcceleratorStatusInProgress
          \<and> StringValue (acc_Status acc) \<noteq> AcceleratorStatusDeployed \<longrightarrow>
      WaitForState (stateConf (stub_conn obs) a T) w =
        (Inl (UnexpectedStateError (StringValue (acc_Status acc))), polled a (Suc k) w))
   \<and> (\<forall>acc s v1. Refresh conf v = ((Some acc, s, None), v1)
          \<and> s \<notin> set (Target conf) \<and> s \<notin> set (Pending conf) \<longrightarrow>
      WaitForState_poll conf (Suc n) l v = (Inl (UnexpectedStateError s), v1))"
proof (intro conjI impI allI)
  assume "\<forall>i<T. is_absent (obs (remote w + i)) \<or> is_in_progress (obs (remote w + i))"
  then show "WaitForState (stateConf (stub_conn obs) a T) w =
        (Inl (TimeoutError (if T = 0 then [] else status_of (obs (remote w + T - 1)))),
         polled a T w)"
    unfolding WaitForState_def
    using poll_transient [of T obs w T a T "[]"] by (simp add: stateConf_def)
next
  fix acc
  assume h: "(\<forall>i<k. is_absent (obs (remote w + i)) \<or> is_in_progress (obs (remote w + i)))
          \<and> k < T \<and> obs (remote w + k) = Inr (Some acc)
          \<and> StringValue (acc_Status acc) \<noteq> AcceleratorStatusInProgress
          \<and> StringValue (acc_Status acc) \<noteq> AcceleratorStatusDeployed"
  from h obtain m where m: "T - k = Suc m" by (cases "T - k") simp_all
  have "WaitForState (stateConf (stub_conn obs) a T) w =
        WaitForState_poll (stateConf (stub_conn obs) a T) (Suc m)
          (if k = 0 then [] else status_of (obs (remote w + k - 1))) (polled a k w)"
    unfolding WaitForState_def
    using poll_transient [of k obs w T a T "[]"] h m by (simp add: stateConf_def)
  also have "\<dots> = (Inl (UnexpectedStateError (StringValue (acc_Status acc))),
                   polled a (Suc 0) (polled a k w))"
    using h poll_step_unexpected [of obs "polled a k w" acc a T m]
    by (simp add: polled_def)
  finally show "WaitForState (stateConf (stub_conn obs) a T) w =
        (Inl (UnexpectedStateError (StringValue (acc_Status acc))), polled a (Suc k) w)"
    by (simp add: polled_def replicate_append_same)
next
  fix acc s v1
  assume "Refresh conf v = ((Some acc, s, None), v1)
          \<and> s \<notin> set (Target conf) \<and> s \<notin> set (Pending conf)"
  then show "WaitForState_poll conf (Suc n) l v = (Inl (UnexpectedStateError s), v1)"
    by simp
qed

theorem WaitForState_times_out_witness:
  "WaitForState (stateConf (stub_conn in_progress_stream) ''arn:accelerator/1'' 3)
     (world_of 0) =
     (Inl (TimeoutError ''IN_PROGRESS''), polled ''arn:accelerator/1'' 3 (world_of 0))
   \<and> WaitForState (stateConf (stub_conn late_failed_stream) ''arn:accelerator/1'' 5)
       (world_of 0) =
     (Inl (UnexpectedStateError ''FAILED''), polled ''arn:accelerator/1'' 3 (world_of 0))
   \<and> WaitForState_poll (stateConf (stub_conn failed_stream) ''arn:accelerator/1'' 5) (Suc 4) []
       (world_of 0) =
     (Inl (UnexpectedStateError ''FAILED''), polled ''arn:accelerator/1'' (Suc 0) (world_of 0))"
proof -
  let ?failed = "sample_accelerator\<lparr>acc_Status := Some ''FAILED''\<rparr>"
  let ?conf = "stateConf (stub_conn failed_stream) ''arn:accelerator/1'' 5"
  note t1 = WaitForState_times_out [where T = 3 and obs = in_progress_stream
      and w = "world_of 0" and a = "''arn:accelerator/1''" and k = 0 and conf = ?conf
      and v = "world_of 0" and n = 4 and l = "[]"]
  note t2 = WaitForState_times_out [where T = 5 and obs = late_failed_stream
      and w = "world_of 0" and a = "''arn:accelerator/1''" and k = 2 and conf = ?conf
      and v = "world_of 0" and n = 4 and l = "[]"]
  have h: "\<forall>i<3. is_absent (in_progress_stream (remote (world_of 0) + i))
                \<or> is_in_progress (in_progress_stream (remote (world_of 0) + i))"
    by (simp add: in_progress_stream_def StringValue_def)
  have st: "status_of (in_progress_stream m) = ''IN_PROGRESS''" for m
    by (simp add: in_progress_stream_def StringValue_def AcceleratorStatusInProgress_def)
  from t1 h have "WaitForState (stateConf (stub_conn in_progress_stream) ''arn:accelerator/1'' 3)
             (world_of 0) =
           (Inl (TimeoutError (if (3::nat) = 0 then []
                               else status_of (in_progress_stream (remote (world_of 0) + 3 - 1)))),
            polled ''arn:accelerator/1'' 3 (world_of 0))"
    by blast
  then have a: "WaitForState (stateConf (stub_conn in_progress_stream) ''arn:accelerator/1'' 3)
             (world_of 0) =
           (Inl (TimeoutError ''IN_PROGRESS''), polled ''arn:accelerator/1'' 3 (world_of 0))"
    by (simp add: st)
  have g: "(\<forall>i<2. is_absent (late_failed_stream (remote (world_of 0) + i))
                 \<or> is_in_progress (late_failed_stream (remote (world_of 0) + i)))
           \<and> (2::nat) < 5
           \<and> late_failed_stream (remote (world_of 0) + 2) = Inr (Some ?failed)
           \<and> StringValue (acc_Status ?failed) \<noteq> AcceleratorStatusInProgress
           \<and> StringValue (acc_Status ?failed) \<noteq> AcceleratorStatusDeployed"
    by (simp add: late_failed_stream_def failed_stream_def world_of_def not_found_def
        Contains_Nil StringValue_def AcceleratorStatusInProgress_def
        AcceleratorStatusDeployed_def)
  from t2 g have "WaitForState (stateConf (stub_conn late_failed_stream) ''arn:accelerator/1'' 5)
          (world_of 0) =
        (Inl (UnexpectedStateError (StringValue (acc_Status ?failed))),
         polled ''arn:accelerator/1'' (Suc 2) (world_of 0))"
    by blast
  then have b: "WaitForState (stateConf (stub_conn late_failed_stream) ''arn:accelerator/1'' 5)
          (world_of 0) =
        (Inl (UnexpectedStateError ''FAILED''), polled ''arn:accelerator/1'' 3 (world_of 0))"
    by (simp add: StringValue_def)
  have r: "Refresh ?conf (world_of 0) =
             ((Some ?failed, ''FAILED'', None), polled ''arn:accelerator/1'' (Suc 0) (world_of 0))
           \<and> ''FAILED'' \<notin> set (Target ?conf) \<and> ''FAILED'' \<notin> set (Pending ?conf)"
    using stub_refresh_present [of failed_stream "world_of 0" ?failed "''arn:accelerator/1''"]
    by (simp add: stateConf_def failed_stream_def StringValue_def
        AcceleratorStatusInProgress_def AcceleratorStatusDeployed_def)
  from t2 r have c: "WaitForState_poll ?conf (Suc 4) [] (world_of 0) =
        (Inl (UnexpectedStateError ''FAILED''), polled ''arn:accelerator/1'' (Suc 0) (world_of 0))"
    by blast
  from a b c show ?thesis by blast
qed

text \<open>
  Claim C5 as stated speaks of every sequence whose statuses never reach the target
  set. A sequence that stays in the status "FAILED" never reaches it, yet the wait does
  not end in the timeout error: the first observation is surfaced as an unexpected
  status.
\<close>

theorem WaitForState_unexpected_status_counterexample:
  "fst (WaitForState (stateConf (stub_conn failed_stream) ''arn:accelerator/1'' 3)
         (world_of 0)) = Inl (UnexpectedStateError ''FAILED'')
   \<and> fst (WaitForState (stateConf (stub_conn failed_stream) ''arn:accelerator/1'' 3)
           (world_of 0)) \<noteq> Inl (TimeoutError ''FAILED'')
   \<and> status_of (failed_stream 0) = ''FAILED''
   \<and> ''FAILED'' \<notin> set (Target (stateConf (stub_conn failed_stream) ''arn:accelerator/1'' 3))"
  by (simp add: WaitForState_def stateConf_def eval_nat_numeral failed_stream_def
      stub_refresh_present [of failed_stream] StringValue_def world_of_def
      AcceleratorStatusInProgress_def AcceleratorStatusDeployed_def)

text \<open>
  Claim C6: an observation whose status is a target ends the wait with the observed
  accelerator at once. This holds for the poller with any configuration, at any point
  of the loop where a poll is made; for the configuration of the two call sites (target
  \<^verbatim>\<open>DEPLOYED\<close>) with any connection, where one describe request is issued; and
  against a scripted service, where the wait returns on the first deployed answer that
  follows \<open>k\<close> absent or pending ones, after \<open>k + 1\<close> requests.
\<close>

theorem WaitForState_returns_on_target:
  "(\<forall>acc s w1. Refresh conf w = ((Some acc, s, None), w1) \<and> s \<in> set (Target conf) \<longrightarrow>
       WaitForState_poll conf (Suc n) l w = (Inr acc, w1))
   \<and> (\<forall>acc r. DescribeAccelerator conn a (remote v) = (Inr (Some acc), r)
          \<and> acc_Status acc = Some AcceleratorStatusDeployed \<longrightarrow>
       WaitForState_poll (stateConf conn a t) (Suc n) l v =
         (Inr acc, v\<lparr>remote := r, calls := calls v @ [DescribeAcceleratorCall a]\<rparr>))
   \<and> (\<forall>acc. (\<forall>i<k. is_absent (obs (remote u + i)) \<or> is_in_progress (obs (remote u + i)))
          \<and> k < T \<and> obs (remote u + k) = Inr (Some acc)
          \<and> acc_Status acc = Some AcceleratorStatusDeployed \<longrightarrow>
       WaitForState (stateConf (stub_conn obs) a T) u = (Inr acc, polled a (Suc k) u))"
proof (intro conjI impI allI)
  fix acc s w1
  assume "Refresh conf w = ((Some acc, s, None), w1) \<and> s \<in> set (Target conf)"
  then show "WaitForState_poll conf (Suc n) l w = (Inr acc, w1)" by simp
next
  fix acc r
  assume h: "DescribeAccelerator conn a (remote v) = (Inr (Some acc), r)
          \<and> acc_Status acc = Some AcceleratorStatusDeployed"
  then show "WaitForState_poll (stateConf conn a t) (Suc n) l v =
         (Inr acc, v\<lparr>remote := r, calls := calls v @ [DescribeAcceleratorCall a]\<rparr>)"
    using refresh_present [of conn a v acc r]
    by (simp add: stateConf_def StringValue_def)
next
  fix acc
  assume h: "(\<forall>i<k. is_absent (obs (remote u + i)) \<or> is_in_progress (obs (remote u + i)))
          \<and> k < T \<and> obs (remote u + k) = Inr (Some acc)
          \<and> acc_Status acc = Some AcceleratorStatusDeployed"
  from h obtain m where m: "T - k = Suc m" by (cases "T - k") simp_all
  have "WaitForState (stateConf (stub_conn obs) a T) u =
        WaitForState_poll (stateConf (stub_conn obs) a T) (Suc m)
          (if k = 0 then [] else status_of (obs (remote u + k - 1))) (polled a k u)"
    unfolding WaitForState_def
    using poll_transient [of k obs u T a T "[]"] h m by (simp add: stateConf_def)
  also have "\<dots> = (Inr acc, polled a (Suc 0) (polled a k u))"
    using h poll_step_target [of obs "polled a k u" acc a T m]
    by (simp add: polled_def)
  finally show "WaitForState (stateConf (stub_conn obs) a T) u = (Inr acc, polled a (Suc k) u)"
    by (simp add: polled_def replicate_append_same)
qed

theorem WaitForState_returns_on_target_witness:
  "WaitForState_poll (stateConf (fake_conn False) ''arn:accelerator/1'' 300) (Suc 0) []
     (world_of sample_remote) =
     (Inr sample_accelerator,
      \<lparr>remote = sample_remote, calls = [DescribeAcceleratorCall ''arn:accelerator/1''],
       uid_counter = 0\<rparr>)
   \<and> WaitForState (stateConf (stub_conn late_stream) ''arn:accelerator/1'' 5) (world_of 0) =
     (Inr sample_accelerator, polled ''arn:accelerator/1'' 3 (world_of 0))"
proof -
  let ?conf = "stateConf (fake_conn False) ''arn:accelerator/1'' 300"
  let ?w1 = "\<lparr>remote = sample_remote, calls = [DescribeAcceleratorCall ''arn:accelerator/1''],
              uid_counter = 0\<rparr>"
  have d: "DescribeAccelerator (fake_conn False) ''arn:accelerator/1''
             (remote (world_of sample_remote)) = (Inr (Some sample_accelerator), sample_remote)
           \<and> acc_Status sample_accelerator = Some AcceleratorStatusDeployed"
    by (simp add: fake_conn_def world_of_def sample_remote_def sample_accelerator_def)
  have r: "Refresh ?conf (world_of sample_remote) =
             ((Some sample_accelerator, AcceleratorStatusDeployed, None), ?w1)
           \<and> AcceleratorStatusDeployed \<in> set (Target ?conf)"
    using d refresh_present [of "fake_conn False" "''arn:accelerator/1''"
        "world_of sample_remote" sample_accelerator sample_remote]
    by (simp add: stateConf_def StringValue_def world_of_def)
  have h: "(\<forall>i<2. is_absent (late_stream (remote (world_of 0) + i))
                 \<or> is_in_progress (late_stream (remote (world_of 0) + i)))
           \<and> (2::nat) < 5
           \<and> late_stream (remote (world_of 0) + 2) = Inr (Some sample_accelerator)
           \<and> acc_Status sample_accelerator = Some AcceleratorStatusDeployed"
    by (simp add: late_stream_def world_of_def not_found_def Contains_Nil
        sample_accelerator_def)
  note inst = WaitForState_returns_on_target [of ?conf "world_of sample_remote" 0 "[]"
      "fake_conn False" "''arn:accelerator/1''" "world_of sample_remote" 300 2 late_stream
      "world_of 0" 5]
  have a: "WaitForState_poll ?conf (Suc 0) [] (world_of sample_remote) =
             (Inr sample_accelerator, ?w1)"
    using inst r by blast
  have a': "WaitForState_poll ?conf (Suc 0) [] (world_of sample_remote) =
             (Inr sample_accelerator,
              (world_of sample_remote)\<lparr>remote := sample_remote,
                calls := calls (world_of sample_remote)
                         @ [DescribeAcceleratorCall ''arn:accelerator/1'']\<rparr>)"
    using inst d by blast
  have b: "WaitForState (stateConf (stub_conn late_stream) ''arn:accelerator/1'' 5)
             (world_of 0) =
           (Inr sample_accelerator, polled ''arn:accelerator/1'' (Suc 2) (world_of 0))"
    using inst h by blast
  have c: "Suc 2 = 3" by simp
  from a a' b show ?thesis unfolding c by blast
qed

subsection \<open>Update\<close>

text \<open>
  Claim C2, as amended. For every run of Update: the base update request is issued,
  once, exactly when \<^verbatim>\<open>name\<close>, \<^verbatim>\<open>ip_address_type\<close> or \<^verbatim>\<open>enabled\<close> changed;
  the attributes request is issued, once, exactly when the attributes changed, the new
  attributes list is not empty and the block of the base fields did not fail, whether
  or not the base fields changed; and when nothing changed Update is the terminal Read
  and issues no other request.
\<close>

theorem Update_diff_scoped:
  "calls (snd (snd (resourceAwsGlobalAcceleratorAcceleratorUpdate conn d w))) =
     calls w @ issued w (snd (snd (resourceAwsGlobalAcceleratorAcceleratorUpdate conn d w)))
   \<and> filter is_UpdateAcceleratorCall
       (issued w (snd (snd (resourceAwsGlobalAcceleratorAcceleratorUpdate conn d w)))) =
       (if HasChange_name d \<or> HasChange_ip_address_type d \<or> HasChange_enabled d
        then [UpdateAcceleratorCall (updateAcceleratorOpts d)] else [])
   \<and> filter is_UpdateAcceleratorAttributesCall
       (issued w (snd (snd (resourceAwsGlobalAcceleratorAcceleratorUpdate conn d w)))) =
       (case Get_attributes d of
          [] \<Rightarrow> []
        | v0 # _ \<Rightarrow>
            if HasChange_attributes d \<and> fst (updateBaseFields conn (Partial True d) w) = None
            then [UpdateAcceleratorAttributesCall (updateAttributesOpts (rd_id d) v0)]
            else [])
   \<and> (\<not> (HasChange_name d \<or> HasChange_ip_address_type d \<or> HasChange_enabled d)
        \<and> \<not> HasChange_attributes d \<longrightarrow>
      resourceAwsGlobalAcceleratorAcceleratorUpdate conn d w =
        resourceAwsGlobalAcceleratorAcceleratorRead conn (Partial False (Partial True d)) w
      \<and> list_all is_read_call
          (issued w (snd (snd (resourceAwsGlobalAcceleratorAcceleratorUpdate conn d w)))))"
proof -
  let ?w' = "snd (snd (resourceAwsGlobalAcceleratorAcceleratorUpdate conn d w))"
  let ?B = "HasChange_name d \<or> HasChange_ip_address_type d \<or> HasChange_enabled d"
  let ?X2 = "case Get_attributes d of
          [] \<Rightarrow> []
        | v0 # _ \<Rightarrow>
            if HasChange_attributes d \<and> fst (updateBaseFields conn (Partial True d) w) = None
            then [UpdateAcceleratorAttributesCall (updateAttributesOpts (rd_id d) v0)]
            else []"
  from Update_calls [of conn d w] obtain xs ys where
    c: "calls ?w' = calls w
          @ (if ?B then UpdateAcceleratorCall (updateAcceleratorOpts d) # xs else [])
          @ ?X2 @ ys"
    and rx: "list_all is_read_call xs" and ry: "list_all is_read_call ys" by blast
  have i: "issued w ?w' =
          (if ?B then UpdateAcceleratorCall (updateAcceleratorOpts d) # xs else []) @ ?X2 @ ys"
    using c by (rule issued_append)
  have p1: "calls ?w' = calls w @ issued w ?w'" using c i by simp
  have p2: "filter is_UpdateAcceleratorCall (issued w ?w') =
         (if ?B then [UpdateAcceleratorCall (updateAcceleratorOpts d)] else [])"
    unfolding i using read_calls_no_mutation [OF rx] read_calls_no_mutation [OF ry]
    by (simp split: list.splits)
  have p3: "filter is_UpdateAcceleratorAttributesCall (issued w ?w') = ?X2"
    unfolding i using read_calls_no_mutation [OF rx] read_calls_no_mutation [OF ry]
    by (simp split: list.splits)
  have p4: "resourceAwsGlobalAcceleratorAcceleratorUpdate conn d w =
        resourceAwsGlobalAcceleratorAcceleratorRead conn (Partial False (Partial True d)) w
      \<and> list_all is_read_call (issued w ?w')"
    if n: "\<not> ?B \<and> \<not> HasChange_attributes d"
  proof -
    from n have b: "updateBaseFields conn (Partial True d) w = (None, Partial True d, w)"
      by (simp add: updateBaseFields_unchanged)
    from n have a: "updateAttributesBlock conn (Partial True d) w = (None, Partial True d, w)"
      by (simp add: updateAttributesBlock_unchanged)
    have e: "resourceAwsGlobalAcceleratorAcceleratorUpdate conn d w =
        resourceAwsGlobalAcceleratorAcceleratorRead conn (Partial False (Partial True d)) w"
      by (simp add: resourceAwsGlobalAcceleratorAcceleratorUpdate_def a b)
    have "issued w ?w' = ys" unfolding i using n by (simp split: list.splits)
    with ry e show ?thesis by simp
  qed
  from p1 p2 p3 p4 show ?thesis by blast
qed

theorem Update_diff_scoped_witness:
  "resourceAwsGlobalAcceleratorAcceleratorUpdate (fake_conn False) sample_data
     (world_of sample_remote) =
     resourceAwsGlobalAcceleratorAcceleratorRead (fake_conn False)
       (Partial False (Partial True sample_data)) (world_of sample_remote)
   \<and> list_all is_read_call
       (issued (world_of sample_remote)
         (snd (snd (resourceAwsGlobalAcceleratorAcceleratorUpdate (fake_conn False)
                     sample_data (world_of sample_remote)))))
   \<and> filter is_UpdateAcceleratorCall
       (issued (world_of sample_remote)
         (snd (snd (resourceAwsGlobalAcceleratorAcceleratorUpdate (fake_conn False)
                     update_data (world_of sample_remote))))) =
       [UpdateAcceleratorCall (updateAcceleratorOpts update_data)]
   \<and> filter is_UpdateAcceleratorAttributesCall
       (issued (world_of sample_remote)
         (snd (snd (resourceAwsGlobalAcceleratorAcceleratorUpdate (fake_conn False)
                     update_data (world_of sample_remote))))) =
       [UpdateAcceleratorAttributesCall
         (updateAttributesOpts ''arn:accelerator/1'' sample_attributes)]"
proof -
  have n: "\<not> (HasChange_name sample_data \<or> HasChange_ip_address_type sample_data
               \<or> HasChange_enabled sample_data) \<and> \<not> HasChange_attributes sample_data"
    by (simp add: sample_defs data_defs)
  have c: "HasChange_name update_data" "HasChange_attributes update_data"
    "Get_attributes update_data = [sample_attributes]"
    "rd_id update_data = ''arn:accelerator/1''"
    by (simp_all add: sample_defs data_defs)
  have b: "fst (updateBaseFields (fake_conn False) (Partial True update_data)
                 (world_of sample_remote)) = None"
    by (simp add: update_data_base_step)
  from Update_diff_scoped [of "fake_conn False" sample_data "world_of sample_remote"] n
  have p1: "resourceAwsGlobalAcceleratorAcceleratorUpdate (fake_conn False) sample_data
     (world_of sample_remote) =
     resourceAwsGlobalAcceleratorAcceleratorRead (fake_conn False)
       (Partial False (Partial True sample_data)) (world_of sample_remote)
   \<and> list_all is_read_call
       (issued (world_of sample_remote)
         (snd (snd (resourceAwsGlobalAcceleratorAcceleratorUpdate (fake_conn False)
                     sample_data (world_of sample_remote)))))"
    by blast
  from Update_diff_scoped [of "fake_conn False" update_data "world_of sample_remote"] c b
  have p2: "filter is_UpdateAcceleratorCall
       (issued (world_of sample_remote)
         (snd (snd (resourceAwsGlobalAcceleratorAcceleratorUpdate (fake_conn False)
                     update_data (world_of sample_remote))))) =
       [UpdateAcceleratorCall (updateAcceleratorOpts update_data)]
   \<and> filter is_UpdateAcceleratorAttributesCall
       (issued (world_of sample_remote)
         (snd (snd (resourceAwsGlobalAcceleratorAcceleratorUpdate (fake_conn False)
                     update_data (world_of sample_remote))))) =
       [UpdateAcceleratorAttributesCall
         (updateAttributesOpts ''arn:accelerator/1'' sample_attributes)]"
    by simp
  from p1 p2 show ?thesis by blast
qed

text \<open>
  Claim C2 as stated lets the attributes step run whenever the attributes differ. Two
  runs in which they differ and no attributes request is issued: the attributes block
  was removed (the guard of line 287 skips the request and Update succeeds), and the
  base update failed first (line 265 returns before the attributes are looked at).
\<close>

theorem Update_attributes_skipped_counterexample:
  "HasChange_attributes removal_data
   \<and> fst (resourceAwsGlobalAcceleratorAcceleratorUpdate (fake_conn False) removal_data
           (world_of sample_remote)) = None
   \<and> calls (snd (snd (resourceAwsGlobalAcceleratorAcceleratorUpdate (fake_conn False)
                        removal_data (world_of sample_remote)))) =
       [DescribeAcceleratorCall ''arn:accelerator/1'',
        DescribeAcceleratorAttributesCall ''arn:accelerator/1'']
   \<and> HasChange_attributes update_data
   \<and> calls (snd (snd (resourceAwsGlobalAcceleratorAcceleratorUpdate throttled_conn
                        update_data (world_of sample_remote)))) =
       [UpdateAcceleratorCall (updateAcceleratorOpts update_data)]"
proof -
  have a: "HasChange_attributes removal_data" "HasChange_attributes update_data"
    by (simp_all add: sample_defs data_defs)
  have nb: "\<not> (HasChange_name removal_data \<or> HasChange_ip_address_type removal_data
               \<or> HasChange_enabled removal_data)"
    by (simp add: sample_defs data_defs)
  have g: "Get_attributes (Partial True removal_data) = []"
    by (simp add: sample_defs data_defs)
  have u1: "resourceAwsGlobalAcceleratorAcceleratorUpdate (fake_conn False) removal_data
              (world_of sample_remote) =
            resourceAwsGlobalAcceleratorAcceleratorRead (fake_conn False)
              (Partial False (SetPartial ''attributes'' (Partial True removal_data)))
              (world_of sample_remote)"
    using nb a(1) g
    by (simp add: resourceAwsGlobalAcceleratorAcceleratorUpdate_def
        updateBaseFields_unchanged updateAttributesBlock_def)
  have r1: "fst (resourceAwsGlobalAcceleratorAcceleratorRead (fake_conn False)
              (Partial False (SetPartial ''attributes'' (Partial True removal_data)))
              (world_of sample_remote)) = None
         \<and> calls (snd (snd (resourceAwsGlobalAcceleratorAcceleratorRead (fake_conn False)
              (Partial False (SetPartial ''attributes'' (Partial True removal_data)))
              (world_of sample_remote)))) =
           [DescribeAcceleratorCall ''arn:accelerator/1'',
            DescribeAcceleratorAttributesCall ''arn:accelerator/1'']"
    by (simp add: resourceAwsGlobalAcceleratorAcceleratorRead_def
        resourceAwsGlobalAcceleratorAcceleratorRetrieve_def call_DescribeAccelerator_def
        call_DescribeAcceleratorAttributes_def sample_defs data_defs)
  have b: "HasChange_name (Partial True update_data)"
    by (simp add: sample_defs data_defs)
  have u2: "resourceAwsGlobalAcceleratorAcceleratorUpdate throttled_conn update_data
              (world_of sample_remote) =
            (Some (Errorf ''Error updating Global Accelerator accelerator: ''
                    (OtherError ''throttled'')),
             Partial True update_data,
             (world_of sample_remote)\<lparr>calls :=
                [UpdateAcceleratorCall (updateAcceleratorOpts update_data)]\<rparr>)"
    using b
    by (simp add: resourceAwsGlobalAcceleratorAcceleratorUpdate_def updateBaseFields_def
        call_UpdateAccelerator_def throttled_conn_def world_of_def)
  from a u1 r1 u2 show ?thesis by simp
qed

text \<open>
  Claim C3: when the base fields changed, the base update request succeeded and the
  wait reached the target, and the attributes request then fails, Update returns the
  error of the attributes step; the resource data stays in partial mode with
  \<^verbatim>\<open>name\<close>, \<^verbatim>\<open>ip_address_type\<close> and \<^verbatim>\<open>enabled\<close> recorded as applied and
  \<^verbatim>\<open>attributes\<close> not; and the only requests of the run are the base update, the
  polls of the wait and the failed attributes request, so nothing undoes the base
  update: the remote state is the one the failed request left.
\<close>

theorem Update_attributes_failure_keeps_base_change:
  assumes base: "HasChange_name d \<or> HasChange_ip_address_type d \<or> HasChange_enabled d"
    and upd: "UpdateAccelerator conn (updateAcceleratorOpts d) (remote w) = (None, r1)"
    and wait: "WaitForState (stateConf conn (rd_id d) (rd_timeout_update d))
                 (w\<lparr>remote := r1,
                    calls := calls w @ [UpdateAcceleratorCall (updateAcceleratorOpts d)]\<rparr>) =
               (Inr acc, w2)"
    and attrs: "HasChange_attributes d \<and> Get_attributes d = v0 # vs"
    and fail: "UpdateAcceleratorAttributes conn (updateAttributesOpts (rd_id d) v0) (remote w2) =
               (Some err, r3)"
  shows "resourceAwsGlobalAcceleratorAcceleratorUpdate conn d w =
           (Some (Errorf ''Error updating Global Accelerator accelerator attributes: '' err),
            (Partial True d)\<lparr>rd_partial_keys :=
               rd_partial_keys d @ [''name'', ''ip_address_type'', ''enabled'']\<rparr>,
            w2\<lparr>remote := r3,
               calls := calls w2 @ [UpdateAcceleratorAttributesCall
                                     (updateAttributesOpts (rd_id d) v0)]\<rparr>)
       \<and> (\<exists>polls. calls w2 = calls w @ UpdateAcceleratorCall (updateAcceleratorOpts d) # polls
                 \<and> list_all is_read_call polls)"
proof -
  let ?d0 = "Partial True d"
  let ?w1 = "w\<lparr>remote := r1,
               calls := calls w @ [UpdateAcceleratorCall (updateAcceleratorOpts d)]\<rparr>"
  let ?d1 = "?d0\<lparr>rd_partial_keys :=
               rd_partial_keys d @ [''name'', ''ip_address_type'', ''enabled'']\<rparr>"
  have sp: "SetPartial ''enabled'' (SetPartial ''ip_address_type'' (SetPartial ''name'' ?d0))
            = ?d1"
    by (simp add: SetPartial_def Partial_def)
  have c: "call_UpdateAccelerator conn (updateAcceleratorOpts d) w = (None, ?w1)"
    using upd by (simp add: call_UpdateAccelerator_def)
  have b: "updateBaseFields conn ?d0 w = (None, ?d1, w2)"
    using base c wait sp by (simp add: updateBaseFields_def)
  have a1: "HasChange_attributes ?d1" "Get_attributes ?d1 = v0 # vs" "rd_id ?d1 = rd_id d"
    using attrs by (auto simp add: HasChange_attributes_def Get_attributes_def Partial_def)
  have ua: "resourceAwsGlobalAcceleratorAcceleratorUpdateAttributes conn (rd_id d) v0 w2 =
      (Some (Errorf ''Error updating Global Accelerator accelerator attributes: '' err),
       w2\<lparr>remote := r3,
          calls := calls w2 @ [UpdateAcceleratorAttributesCall
                                (updateAttributesOpts (rd_id d) v0)]\<rparr>)"
    using fail by (simp add: UpdateAttributes_result)
  have blk: "updateAttributesBlock conn ?d1 w2 =
      (Some (Errorf ''Error updating Global Accelerator accelerator attributes: '' err), ?d1,
       w2\<lparr>remote := r3,
          calls := calls w2 @ [UpdateAcceleratorAttributesCall
                                (updateAttributesOpts (rd_id d) v0)]\<rparr>)"
    using a1 ua by (simp add: updateAttributesBlock_def)
  have main: "resourceAwsGlobalAcceleratorAcceleratorUpdate conn d w =
           (Some (Errorf ''Error updating Global Accelerator accelerator attributes: '' err),
            ?d1,
            w2\<lparr>remote := r3,
               calls := calls w2 @ [UpdateAcceleratorAttributesCall
                                     (updateAttributesOpts (rd_id d) v0)]\<rparr>)"
    by (simp add: resourceAwsGlobalAcceleratorAcceleratorUpdate_def b blk)
  from WaitForState_calls [of conn "rd_id d" "rd_timeout_update d" ?w1] wait
  obtain polls where "calls w2 = calls ?w1 @ polls" and "list_all is_read_call polls"
    by auto
  then have "calls w2 = calls w @ UpdateAcceleratorCall (updateAcceleratorOpts d) # polls
             \<and> list_all is_read_call polls" by simp
  with main show ?thesis by blast
qed

theorem Update_attributes_failure_keeps_base_change_witness:
  "fst (resourceAwsGlobalAcceleratorAcceleratorUpdate (fake_conn True) update_data
         (world_of sample_remote)) =
     Some (Errorf ''Error updating Global Accelerator accelerator attributes: ''
            (AWSError ''InvalidArgumentException'' ''bad bucket''))
   \<and> rd_partial_keys (fst (snd (resourceAwsGlobalAcceleratorAcceleratorUpdate (fake_conn True)
         update_data (world_of sample_remote)))) = [''name'', ''ip_address_type'', ''enabled'']
   \<and> fr_accelerator (remote (snd (snd (resourceAwsGlobalAcceleratorAcceleratorUpdate
         (fake_conn True) update_data (world_of sample_remote))))) =
       Some (sample_accelerator\<lparr>acc_Name := Some ''web2''\<rparr>)
   \<and> v_name (rd_new (fst (snd (resourceAwsGlobalAcceleratorAcceleratorRead (fake_conn True)
         (fst (snd (resourceAwsGlobalAcceleratorAcceleratorUpdate (fake_conn True) update_data
                     (world_of sample_remote))))
         (snd (snd (resourceAwsGlobalAcceleratorAcceleratorUpdate (fake_conn True) update_data
                     (world_of sample_remote)))))))) = Some ''web2''"
proof -
  let ?r1 = "sample_remote\<lparr>fr_accelerator :=
               Some (sample_accelerator\<lparr>acc_Name := Some ''web2''\<rparr>)\<rparr>"
  let ?w1 = "(world_of sample_remote)\<lparr>remote := ?r1,
               calls := calls (world_of sample_remote)
                        @ [UpdateAcceleratorCall (updateAcceleratorOpts update_data)]\<rparr>"
  let ?w2 = "?w1\<lparr>remote := ?r1,
                  calls := calls ?w1 @ [DescribeAcceleratorCall ''arn:accelerator/1'']\<rparr>"
  let ?err = "AWSError ''InvalidArgumentException'' ''bad bucket''"
  have i: "rd_id update_data = ''arn:accelerator/1''" "rd_timeout_update update_data = 300"
    "rd_partial_keys update_data = []"
    by (simp_all add: sample_defs)
  have base: "HasChange_name update_data \<or> HasChange_ip_address_type update_data
              \<or> HasChange_enabled update_data"
    by (simp add: sample_defs data_defs)
  have upd: "UpdateAccelerator (fake_conn True) (updateAcceleratorOpts update_data)
               (remote (world_of sample_remote)) = (None, ?r1)"
    by (simp add: updateAcceleratorOpts_def sample_defs data_defs)
  have d: "DescribeAccelerator (fake_conn True) ''arn:accelerator/1'' (remote ?w1) =
             (Inr (Some (sample_accelerator\<lparr>acc_Name := Some ''web2''\<rparr>)), ?r1)"
    by (simp add: sample_defs)
  have s: "acc_Status (sample_accelerator\<lparr>acc_Name := Some ''web2''\<rparr>) =
             Some AcceleratorStatusDeployed"
    by (simp add: sample_defs)
  have "WaitForState (stateConf (fake_conn True) ''arn:accelerator/1'' 300) ?w1 =
             (Inr (sample_accelerator\<lparr>acc_Name := Some ''web2''\<rparr>), ?w2)"
    by (rule WaitForState_deployed_now [OF d s]) simp
  then have wait: "WaitForState (stateConf (fake_conn True) (rd_id update_data)
                     (rd_timeout_update update_data)) ?w1 =
             (Inr (sample_accelerator\<lparr>acc_Name := Some ''web2''\<rparr>), ?w2)"
    by (simp only: i)
  have attrs: "HasChange_attributes update_data
               \<and> Get_attributes update_data = sample_attributes # []"
    by (simp add: sample_defs data_defs)
  have fail: "UpdateAcceleratorAttributes (fake_conn True)
                (updateAttributesOpts (rd_id update_data) sample_attributes) (remote ?w2) =
              (Some ?err, ?r1)"
    by (simp add: fake_conn_def)
  note res = Update_attributes_failure_keeps_base_change [OF base upd wait attrs fail]
  then have U: "resourceAwsGlobalAcceleratorAcceleratorUpdate (fake_conn True) update_data
                  (world_of sample_remote) =
       (Some (Errorf ''Error updating Global Accelerator accelerator attributes: '' ?err),
        (Partial True update_data)\<lparr>rd_partial_keys :=
           rd_partial_keys update_data @ [''name'', ''ip_address_type'', ''enabled'']\<rparr>,
        ?w2\<lparr>remote := ?r1,
            calls := calls ?w2 @ [UpdateAcceleratorAttributesCall
                       (updateAttributesOpts (rd_id update_data) sample_attributes)]\<rparr>)"
    by blast
  show ?thesis
    unfolding U
    by (simp add: i resourceAwsGlobalAcceleratorAcceleratorRead_def
        resourceAwsGlobalAcceleratorAcceleratorRetrieve_def call_DescribeAccelerator_def
        call_DescribeAcceleratorAttributes_def sample_defs data_defs)
qed

subsection \<open>Create\<close>

text \<open>
  Claim C10: the first request of Create is the create request, and no other create
  request follows. Its \<^verbatim>\<open>Enabled\<close> field is always present, with the value
  \<open>False\<close> when \<^verbatim>\<open>enabled\<close> is unset; its \<^verbatim>\<open>IpAddressType\<close> field is absent
  exactly when \<^verbatim>\<open>ip_address_type\<close> is unset or empty.
\<close>

theorem Create_request_fields:
  "(\<exists>rest. issued w (snd (snd (resourceAwsGlobalAcceleratorAcceleratorCreate conn d w))) =
            CreateAcceleratorCall (createAcceleratorOpts d (fst (UniqueId w))) # rest
          \<and> filter is_CreateAcceleratorCall rest = [])
   \<and> ci_Enabled (createAcceleratorOpts d token) =
       Some (case v_enabled (rd_new d) of None \<Rightarrow> False | Some b \<Rightarrow> b)
   \<and> ci_IpAddressType (createAcceleratorOpts d token) =
       (case v_ip_address_type (rd_new d) of
          None \<Rightarrow> None
        | Some t \<Rightarrow> if t = [] then None else Some t)"
proof (intro conjI)
  from Create_calls [of conn d w] obtain rest where
    c: "calls (snd (snd (resourceAwsGlobalAcceleratorAcceleratorCreate conn d w))) =
       calls w @ CreateAcceleratorCall (createAcceleratorOpts d (fst (UniqueId w))) # rest"
    and n: "filter is_CreateAcceleratorCall rest = []" by blast
  from c have "issued w (snd (snd (resourceAwsGlobalAcceleratorAcceleratorCreate conn d w))) =
       CreateAcceleratorCall (createAcceleratorOpts d (fst (UniqueId w))) # rest"
    by (rule issued_append)
  with n show "\<exists>rest. issued w (snd (snd (resourceAwsGlobalAcceleratorAcceleratorCreate conn d w))) =
            CreateAcceleratorCall (createAcceleratorOpts d (fst (UniqueId w))) # rest
          \<and> filter is_CreateAcceleratorCall rest = []" by blast
next
  show "ci_Enabled (createAcceleratorOpts d token) =
       Some (case v_enabled (rd_new d) of None \<Rightarrow> False | Some b \<Rightarrow> b)"
    by (simp add: createAcceleratorOpts_def Get_enabled_def BoolValue_def
        GetOk_ip_address_type_def Let_def)
next
  show "ci_IpAddressType (createAcceleratorOpts d token) =
       (case v_ip_address_type (rd_new d) of
          None \<Rightarrow> None
        | Some t \<Rightarrow> if t = [] then None else Some t)"
    by (simp add: createAcceleratorOpts_def GetOk_ip_address_type_def StringValue_def Let_def
        split: option.splits)
qed

theorem Create_request_fields_witness:
  "ci_Enabled (createAcceleratorOpts unset_data ''terraform-'') = Some False
   \<and> ci_IpAddressType (createAcceleratorOpts unset_data ''terraform-'') = None
   \<and> ci_IpAddressType (createAcceleratorOpts sample_data ''terraform-'') = Some ''IPV4''"
  using Create_request_fields [of "world_of empty_remote" "fake_conn False" unset_data
      "''terraform-''"]
    Create_request_fields [of "world_of empty_remote" "fake_conn False" sample_data
      "''terraform-''"]
  by (simp add: unset_data_def sample_data_def sample_values_def)

end
